theory Spec2Isabelle
  imports Complex_Main "HOL-Library.Word"
begin

section \<open>JavaScript values\<close>

text \<open>
  The worker handles JSON-RPC bodies. A JavaScript value is one of the JSON shapes or
  \<open>undefined\<close> (the value of a missing property). Numbers are kept to the integers,
  strings to their UTF-8 bytes. An object is the sequence of its own properties in the
  order they were defined; that JavaScript enumerates integer-like keys first is left
  out, and the properties below are stated by property name, not by position.
\<close>

datatype jsval =
    JUndefined
  | JNull
  | JBool bool
  | JNum int
  | JStr string
  | JArr "jsval list"
  | JObj "(string \<times> jsval) list"

text \<open>
  Property read \<open>v.k\<close> for the names the worker reads (\<open>method\<close>, \<open>id\<close>,
  \<open>jsonrpc\<close>, \<open>params\<close>): present only as an own property of an object; arrays,
  strings, numbers and booleans have no property of these names, so the read is
  \<open>undefined\<close>. (Reading a property of \<open>null\<close> throws; the callers test for it.)
\<close>

definition js_get :: "jsval \<Rightarrow> string \<Rightarrow> jsval" where
  "js_get v k =
     (case v of
        JObj kvs \<Rightarrow> (case map_of kvs k of Some x \<Rightarrow> x | None \<Rightarrow> JUndefined)
      | _ \<Rightarrow> JUndefined)"

definition digit_char :: "nat \<Rightarrow> char" where
  "digit_char d = ''0123456789abcdefghijklmnopqrstuvwxyz'' ! d"

text \<open>\<open>Number.prototype.toString(radix)\<close> on a non-negative integer, radix 2 to 36.\<close>

function toString :: "nat \<Rightarrow> nat \<Rightarrow> string" where
  "toString radix n =
     (if radix < 2 \<or> n < radix then [digit_char n]
      else toString radix (n div radix) @ [digit_char (n mod radix)])"
  by pat_completeness auto
termination
  by (relation "measure (\<lambda>(radix, n). n)") auto

declare toString.simps [simp del]

text \<open>
  The own enumerable properties an object spread \<open>{...v}\<close> copies: an object's
  properties, an array's elements under their indices, a string's characters under
  theirs, nothing for the other values (spreading \<open>null\<close> or \<open>undefined\<close> is allowed
  and copies nothing).
\<close>

definition own_props :: "jsval \<Rightarrow> (string \<times> jsval) list" where
  "own_props v =
     (case v of
        JObj kvs \<Rightarrow> kvs
      | JArr xs \<Rightarrow> zip (map (toString 10) [0..<length xs]) xs
      | JStr s \<Rightarrow> zip (map (toString 10) [0..<length s]) (map (\<lambda>c. JStr [c]) s)
      | _ \<Rightarrow> [])"

text \<open>Defining one property: an existing key keeps its place and takes the new value.\<close>

definition obj_set :: "string \<Rightarrow> jsval \<Rightarrow> (string \<times> jsval) list \<Rightarrow> (string \<times> jsval) list" where
  "obj_set k v kvs =
     (if map_of kvs k = None then kvs @ [(k, v)]
      else map (\<lambda>kv. if fst kv = k then (k, v) else kv) kvs)"

definition object_assign ::
  "(string \<times> jsval) list \<Rightarrow> (string \<times> jsval) list \<Rightarrow> (string \<times> jsval) list" where
  "object_assign target props = foldl (\<lambda>obj kv. obj_set (fst kv) (snd kv) obj) target props"

text \<open>The object literal \<open>{ ...a, ...b }\<close>: a fresh object, \<open>a\<close>'s properties, then \<open>b\<close>'s.\<close>

definition object_spread ::
  "(string \<times> jsval) list \<Rightarrow> (string \<times> jsval) list \<Rightarrow> jsval" where
  "object_spread a b = JObj (object_assign (object_assign [] a) b)"

text \<open>
  What \<open>JSON.stringify\<close> keeps of a value, as the value its text parses back to: a
  property whose value is \<open>undefined\<close> is dropped, an \<open>undefined\<close> array element
  becomes \<open>null\<close>.
\<close>

primrec json_of :: "jsval \<Rightarrow> jsval" where
  "json_of JUndefined = JUndefined"
| "json_of JNull = JNull"
| "json_of (JBool b) = JBool b"
| "json_of (JNum n) = JNum n"
| "json_of (JStr s) = JStr s"
| "json_of (JArr xs) =
     JArr (map (\<lambda>x. if x = JUndefined then JNull else x) (map json_of xs))"
| "json_of (JObj kvs) =
     JObj (filter (\<lambda>kv. snd kv \<noteq> JUndefined) (map (map_prod id json_of) kvs))"

section \<open>The platform\<close>

text \<open>
  What the Workers runtime supplies and the repository does not define is a parameter:
  \<^item> \<open>digest\<close>: \<open>crypto.subtle.digest("SHA-256", bytes)\<close>;
  \<^item> \<open>json_text\<close>: the characters \<open>JSON.stringify\<close> writes for a JSON value;
  \<^item> \<open>own_fields\<close>: whether a \<open>Response\<close> carries \<open>status\<close> and \<open>statusText\<close> as own
    properties (so that \<open>{...response}\<close> copies them) or as prototype accessors (so
    that the spread copies nothing and the constructor's defaults, 200 and the empty
    text, apply). Both runtimes exist; the worker's code is the same on either.
\<close>

record platform =
  digest :: "8 word list \<Rightarrow> 8 word list"
  json_text :: "jsval \<Rightarrow> string"
  own_fields :: bool

text \<open>\<open>JSON.stringify(v)\<close>: \<open>undefined\<close> (here \<open>None\<close>) for \<open>undefined\<close>, else the text.\<close>

definition JSON_stringify :: "platform \<Rightarrow> jsval \<Rightarrow> string option" where
  "JSON_stringify plat v =
     (if v = JUndefined then None else Some (json_text plat (json_of v)))"

section \<open>Configuration\<close>

record url =
  protocol :: string
  hostname :: string
  port :: string
  pathname :: string
  search :: string

definition url_toString :: "url \<Rightarrow> string" where
  "url_toString u =
     protocol u @ ''//'' @ hostname u @ (if port u = [] then [] else '':'' @ port u)
       @ pathname u @ search u"

text \<open>
  The resolved globals of the script's first lines. \<open>PROVIDERS\<close> are kept as the
  URLs \<open>new URL(PROVIDERS[i])\<close> parses them to.
\<close>

record config =
  EDGE_CACHE_TTL :: nat
  BROWSER_CACHE_TTL :: nat
  PROVIDERS :: "url list"
  PROVIDER_TIMEOUT :: nat

section \<open>Headers, requests, responses\<close>

text \<open>Header names compare without case: a header list holds them in lower case.\<close>

type_synonym headers = "(string \<times> string) list"

definition lower_char :: "char \<Rightarrow> char" where
  "lower_char c =
     (case map_of (zip ''ABCDEFGHIJKLMNOPQRSTUVWXYZ'' ''abcdefghijklmnopqrstuvwxyz'') c of
        Some d \<Rightarrow> d
      | None \<Rightarrow> c)"

definition headers_get :: "headers \<Rightarrow> string \<Rightarrow> string option" where
  "headers_get hs name = map_of hs (map lower_char name)"

definition headers_set :: "string \<Rightarrow> string \<Rightarrow> headers \<Rightarrow> headers" where
  "headers_set name v hs =
     filter (\<lambda>kv. fst kv \<noteq> map lower_char name) hs @ [(map lower_char name, v)]"

text \<open>A \<open>Headers\<close> object built from an object literal.\<close>

definition headers_init :: "(string \<times> string) list \<Rightarrow> headers" where
  "headers_init kvs = foldl (\<lambda>hs kv. headers_set (fst kv) (snd kv) hs) [] kvs"

text \<open>
  A body is kept as what \<open>.json()\<close> makes of it: the JSON value its text denotes, or
  text that does not parse (\<open>.json()\<close> rejects with a SyntaxError, as it does on no
  body at all).
\<close>

datatype body = NoBody | JsonText jsval | RawText string

record request =
  req_method :: string
  req_url :: url
  req_headers :: headers
  req_body :: body

record response =
  status :: nat
  statusText :: string
  res_headers :: headers
  res_body :: body

definition ok :: "response \<Rightarrow> bool" where
  "ok r = (200 \<le> status r \<and> status r \<le> 299)"

datatype error =
    Timeout
  | NotOk string
  | NetworkError string
  | TypeError string
  | SyntaxError string

definition body_json :: "body \<Rightarrow> error + jsval" where
  "body_json b =
     (case b of
        JsonText v \<Rightarrow> Inr v
      | RawText s \<Rightarrow> Inl (SyntaxError ''Unexpected token'')
      | NoBody \<Rightarrow> Inl (SyntaxError ''Unexpected end of JSON input''))"

section \<open>sha256\<close>

text \<open>
  \<open>TextEncoder().encode(message)\<close>: the UTF-8 bytes of the string; an \<open>undefined\<close>
  argument takes the default \<open>""\<close>.
\<close>

definition encode :: "string option \<Rightarrow> 8 word list" where
  "encode message = (case message of None \<Rightarrow> [] | Some s \<Rightarrow> map of_char s)"

text \<open>\<open>("00" + b.toString(16)).slice(-2)\<close>\<close>

definition slice_last2 :: "string \<Rightarrow> string" where
  "slice_last2 s = drop (length s - 2) s"

definition hex_byte :: "8 word \<Rightarrow> string" where
  "hex_byte b = slice_last2 (''00'' @ toString 16 (unat b))"

definition sha256 :: "platform \<Rightarrow> string option \<Rightarrow> string" where
  "sha256 plat message =
     (let msgBuffer = encode message;
          hashBuffer = digest plat msgBuffer;
          hashArray = hashBuffer;
          hashHex = concat (map hex_byte hashArray)
      in hashHex)"

section \<open>Effects\<close>

text \<open>
  A handler's promise settles with a value, settles with an error, or has not settled
  when the environment's list of attempts is used up (the failover loop is still
  retrying, or a fetch without a timer is still pending).
\<close>

datatype 'a outcome = Returned 'a | Thrown error | Unsettled

definition settle :: "error + 'a \<Rightarrow> 'a outcome" where
  "settle x = (case x of Inl e \<Rightarrow> Thrown e | Inr v \<Rightarrow> Returned v)"

definition bind_outcome :: "'a outcome \<Rightarrow> ('a \<Rightarrow> 'b outcome) \<Rightarrow> 'b outcome" where
  "bind_outcome x f =
     (case x of Returned v \<Rightarrow> f v | Thrown e \<Rightarrow> Thrown e | Unsettled \<Rightarrow> Unsettled)"

text \<open>
  What the network does with one \<open>fetch\<close>: it answers after so many milliseconds, fails
  after so many, or never settles. One attempt of the failover loop draws one
  \<open>Math.random()\<close> and meets one such behaviour.
\<close>

datatype net = Responds nat response | Fails nat string | Hangs

record attempt =
  rnd :: real
  net :: net

datatype event =
    ConsoleLog string
  | ConsoleError error
  | Fetch url "request option"
  | CacheMatch request
  | CachePut request response

type_synonym cache = "request \<Rightarrow> response option"

section \<open>The failover loop\<close>

text \<open>
  \<open>Promise.race([fetch(url, request), timer])\<close>: the fetch wins when it settles before
  the timer's \<open>timeout\<close> milliseconds are over; otherwise the timer rejects with
  \<open>Error('Timeout')\<close>.
\<close>

definition fetchWithTimeout :: "net \<Rightarrow> url \<Rightarrow> request \<Rightarrow> nat \<Rightarrow> error + response" where
  "fetchWithTimeout n url request timeout =
     (case n of
        Responds t r \<Rightarrow> if t < timeout then Inr r else Inl Timeout
      | Fails t e \<Rightarrow> if t < timeout then Inl (NetworkError e) else Inl Timeout
      | Hangs \<Rightarrow> Inl Timeout)"

text \<open>
  \<open>new URL(PROVIDERS[Math.floor(Math.random() * PROVIDERS.length)])\<close>: an index outside
  the array reads \<open>undefined\<close>, and \<open>new URL(undefined)\<close> throws.
\<close>

definition pick :: "config \<Rightarrow> real \<Rightarrow> url option" where
  "pick cfg r =
     (let i = \<lfloor>r * real (length (PROVIDERS cfg))\<rfloor>
      in if 0 \<le> i \<and> nat i < length (PROVIDERS cfg) then Some (PROVIDERS cfg ! nat i) else None)"

text \<open>
  \<open>request.clone()\<close>: a request with the same method, headers and body, whose body is
  read independently of the original's. On \<open>undefined\<close> the call throws a TypeError.
\<close>

definition clone :: "request option \<Rightarrow> error + request" where
  "clone request =
     (case request of
        None \<Rightarrow> Inl (TypeError ''Cannot read properties of undefined (reading clone)'')
      | Some r \<Rightarrow> Inr r)"

text \<open>
  \<open>tryProvider\<close> of the worker with the timeout. The \<open>try\<close> block is \<open>tried\<close>; its
  \<open>catch\<close> logs the error and calls \<open>tryProvider\<close> again with the same \<open>request\<close>.
  Each call takes the next attempt of the list; a run that has used the list up without
  returning is \<open>Unsettled\<close>. (The recursion has no bound of its own; the runtime's stack
  limit is not modelled.)
\<close>

fun tryProvider ::
  "config \<Rightarrow> attempt list \<Rightarrow> url \<Rightarrow> request option \<Rightarrow> response outcome \<times> event list" where
  "tryProvider cfg [] url request = (Unsettled, [])"
| "tryProvider cfg (a # env) url request =
     (case pick cfg (rnd a) of
        None \<Rightarrow> (Thrown (TypeError ''Invalid URL''), [])
      | Some provider \<Rightarrow>
          (let started = [ConsoleLog (''Attempting provider: '' @ hostname provider)];
               url1 = url\<lparr>hostname := hostname provider, pathname := pathname provider\<rparr>;
               (tried, fetched) =
                 (case clone request of
                    Inl e \<Rightarrow> (Inl e, [])
                  | Inr c \<Rightarrow>
                      (case fetchWithTimeout (net a) url1 c (PROVIDER_TIMEOUT cfg) of
                         Inl e \<Rightarrow> (Inl e, [Fetch url1 (Some c)])
                       | Inr response \<Rightarrow>
                           if \<not> ok response
                           then (Inl (NotOk (url_toString url1 @ '' not ok!'')),
                                 [Fetch url1 (Some c)])
                           else (Inr response, [Fetch url1 (Some c)])))
           in case tried of
                Inr response \<Rightarrow> (Returned response, started @ fetched)
              | Inl e \<Rightarrow>
                  (case tryProvider cfg env url1 request of
                     (res, evs) \<Rightarrow> (res, started @ fetched @ [ConsoleError e] @ evs))))"

text \<open>
  \<open>tryProvider\<close> of \<open>src/index.js\<close>: no timer, no clone, no test of the status. Whatever
  response the fetch resolves with is returned; a fetch that never settles leaves the
  promise pending. The one \<open>request\<close> is passed to every fetch, and a fetch reads its
  body: \<open>used\<close> holds once a fetch has been made, and a further fetch with a request that
  has a body then rejects with a TypeError before anything is sent, which the \<open>catch\<close>
  logs before it tries again. So a request with a body gets a response from the first
  fetch or from none.
\<close>

definition has_body :: "request option \<Rightarrow> bool" where
  "has_body request = (case request of None \<Rightarrow> False | Some r \<Rightarrow> req_body r \<noteq> NoBody)"

fun tryProvider0 ::
  "config \<Rightarrow> attempt list \<Rightarrow> url \<Rightarrow> request option \<Rightarrow> bool
     \<Rightarrow> response outcome \<times> event list" where
  "tryProvider0 cfg [] url request used = (Unsettled, [])"
| "tryProvider0 cfg (a # env) url request used =
     (case pick cfg (rnd a) of
        None \<Rightarrow> (Thrown (TypeError ''Invalid URL''), [])
      | Some provider \<Rightarrow>
          (let url1 = url\<lparr>hostname := hostname provider, pathname := pathname provider\<rparr>
           in if used \<and> has_body request
              then
                (case tryProvider0 cfg env url1 request used of
                   (res, evs) \<Rightarrow>
                     (res, ConsoleError (TypeError ''Body has already been used'') # evs))
              else
                (case net a of
                   Responds t response \<Rightarrow> (Returned response, [Fetch url1 request])
                 | Hangs \<Rightarrow> (Unsettled, [Fetch url1 request])
                 | Fails t e \<Rightarrow>
                     (case tryProvider0 cfg env url1 request True of
                        (res, evs) \<Rightarrow>
                          (res, [Fetch url1 request, ConsoleError (NetworkError e)] @ evs)))))"

section \<open>Origin responses and the edge cache\<close>

text \<open>
  The second argument of \<open>getOriginResponse\<close> is named \<open>event\<close>; \<open>handlePost\<close> passes
  the fetch event, \<open>handleGet\<close> passes the request. \<open>event.request\<close> of a request is
  \<open>undefined\<close>, and a request has no \<open>waitUntil\<close>.
\<close>

datatype jsarg = FetchEvent request | PlainRequest request

definition event_request :: "jsarg \<Rightarrow> request option" where
  "event_request event = (case event of FetchEvent r \<Rightarrow> Some r | PlainRequest r \<Rightarrow> None)"

text \<open>
  \<open>new Response(response.body, { ...response, headers })\<close>: the status and status text
  are the spread's when the runtime keeps them as own properties, the constructor's
  defaults otherwise; the headers are the literal's only. The status codes the
  constructor refuses do not arise: what is passed comes from a fetched or a stored
  response.
\<close>

definition restamp :: "platform \<Rightarrow> response \<Rightarrow> headers \<Rightarrow> response" where
  "restamp plat response hs =
     \<lparr>status = (if own_fields plat then status response else 200),
      statusText = (if own_fields plat then statusText response else []),
      res_headers = hs,
      res_body = res_body response\<rparr>"

definition edge_headers :: "config \<Rightarrow> headers" where
  "edge_headers cfg =
     headers_init [(''Cache-Control'', ''public, max-age='' @ toString 10 (EDGE_CACHE_TTL cfg))]"

text \<open>
  \<open>event.waitUntil(cache.put(cacheKey, response.clone()))\<close>: the argument is evaluated
  before the call, so the put is issued even where \<open>event.waitUntil\<close> is not a function
  and the call throws.
\<close>

definition getOriginResponse ::
  "config \<Rightarrow> platform \<Rightarrow> attempt list \<Rightarrow> url \<Rightarrow> jsarg \<Rightarrow> request option \<Rightarrow> cache
     \<Rightarrow> response outcome \<times> cache \<times> event list" where
  "getOriginResponse cfg plat env url event cacheKey cache =
     (case tryProvider cfg env url (event_request event) of
        (Returned response, evs) \<Rightarrow>
          (case cacheKey of
             None \<Rightarrow> (Returned response, cache, evs)
           | Some key \<Rightarrow>
               (let headers = edge_headers cfg;
                    response1 = restamp plat response headers;
                    cache1 = cache(key \<mapsto> response1);
                    evs1 = evs @ [CachePut key response1]
                in case event of
                     FetchEvent r \<Rightarrow> (Returned response1, cache1, evs1)
                   | PlainRequest r \<Rightarrow>
                       (Thrown (TypeError ''event.waitUntil is not a function''), cache1, evs1)))
      | (Thrown e, evs) \<Rightarrow> (Thrown e, cache, evs)
      | (Unsettled, evs) \<Rightarrow> (Unsettled, cache, evs))"

text \<open>
  \<open>getOriginResponse\<close> of \<open>src/index.js\<close>: the key is not optional. The request it hands
  to the loop has not been read: \<open>handlePost\<close> parsed a clone.
\<close>

definition getOriginResponse0 ::
  "config \<Rightarrow> platform \<Rightarrow> attempt list \<Rightarrow> url \<Rightarrow> jsarg \<Rightarrow> request \<Rightarrow> cache
     \<Rightarrow> response outcome \<times> cache \<times> event list" where
  "getOriginResponse0 cfg plat env url event cacheKey cache =
     (case tryProvider0 cfg env url (event_request event) False of
        (Returned response, evs) \<Rightarrow>
          (let headers = edge_headers cfg;
               response1 = restamp plat response headers;
               cache1 = cache(cacheKey \<mapsto> response1);
               evs1 = evs @ [CachePut cacheKey response1]
           in case event of
                FetchEvent r \<Rightarrow> (Returned response1, cache1, evs1)
              | PlainRequest r \<Rightarrow>
                  (Thrown (TypeError ''event.waitUntil is not a function''), cache1, evs1))
      | (Thrown e, evs) \<Rightarrow> (Thrown e, cache, evs)
      | (Unsettled, evs) \<Rightarrow> (Unsettled, cache, evs))"

section \<open>Formatting\<close>

text \<open>
  \<open>new Response(fullBody, response)\<close> with a string body: status, status text and
  headers are read from \<open>response\<close>, and a text body brings its content type where the
  headers name none. The body is the text \<open>JSON.stringify\<close> wrote.
\<close>

definition text_response :: "jsval \<Rightarrow> response \<Rightarrow> response" where
  "text_response v response =
     \<lparr>status = status response,
      statusText = statusText response,
      res_headers =
        (if headers_get (res_headers response) ''Content-Type'' = None
         then res_headers response @ [(''content-type'', ''text/plain;charset=UTF-8'')]
         else res_headers response),
      res_body = JsonText (json_of v)\<rparr>"

definition browser_headers :: "config \<Rightarrow> headers \<Rightarrow> headers" where
  "browser_headers cfg hs =
     headers_set ''Access-Control-Allow-Headers'' ''*''
       (headers_set ''Access-Control-Allow-Origin'' ''*''
         (headers_set ''Access-Control-Allow-Method'' ''*''
           (headers_set ''Cache-Control'' (''max-age='' @ toString 10 (BROWSER_CACHE_TTL cfg)) hs)))"

text \<open>
  \<open>formatResponse(response, body)\<close>; \<open>body\<close> is an object of extra fields or is left
  out. \<open>response.json()\<close> rejects on a body that is not JSON. Without extra fields,
  \<open>new Response(response.body, response)\<close> is the response again, with headers that can
  be set.
\<close>

definition formatResponse ::
  "config \<Rightarrow> response \<Rightarrow> (string \<times> jsval) list option \<Rightarrow> error + response" where
  "formatResponse cfg response body =
     (case (case body of
              Some extra \<Rightarrow>
                (case body_json (res_body response) of
                   Inl e \<Rightarrow> Inl e
                 | Inr originalBody \<Rightarrow>
                     (let fullBody = object_spread (own_props originalBody) extra
                      in Inr (text_response fullBody response)))
            | None \<Rightarrow> Inr response) of
        Inl e \<Rightarrow> Inl e
      | Inr formattedResponse \<Rightarrow>
          Inr (formattedResponse
                 \<lparr>res_headers := browser_headers cfg (res_headers formattedResponse)\<rparr>))"

section \<open>Handlers\<close>

text \<open>
  A handler is given the fetch event; of the event only \<open>event.request\<close> is read, so the
  handlers here take the request. They also take the attempts the failover loop will
  meet and the edge cache (\<open>caches.default\<close>), and give back the outcome of their promise,
  the cache afterwards and the events in the order they happened. \<open>cache.match\<close> is the
  lookup of the key; the put that \<open>event.waitUntil\<close> keeps alive is taken as done.
\<close>

definition handleGet ::
  "config \<Rightarrow> platform \<Rightarrow> attempt list \<Rightarrow> request \<Rightarrow> cache
     \<Rightarrow> response outcome \<times> cache \<times> event list" where
  "handleGet cfg plat env request cache =
     (let url = req_url request
      in case cache request of
           Some response \<Rightarrow>
             (settle (formatResponse cfg response None), cache, [CacheMatch request])
         | None \<Rightarrow>
             (case getOriginResponse cfg plat env url (PlainRequest request) (Some request) cache of
                (res, cache1, evs) \<Rightarrow>
                  (bind_outcome res (\<lambda>response. settle (formatResponse cfg response None)),
                   cache1, CacheMatch request # evs)))"

text \<open>
  The cache key of \<open>handlePost\<close> (the lines from \<open>const cacheable\<close> to \<open>new Request\<close>),
  set apart under a name. \<open>cacheable\<close> is built and not used. The key is the GET request
  \<open>new Request(url.toString(), { headers: request.headers, method: "GET" })\<close>, kept
  with the URL its string parses to.
\<close>

definition post_cacheKey :: "platform \<Rightarrow> request \<Rightarrow> jsval \<Rightarrow> request" where
  "post_cacheKey plat request body =
     (let url = req_url request;
          method = js_get body ''method'';
          jsonrpc = js_get body ''jsonrpc'';
          cacheable =
            object_spread [(''method'', method), (''jsonrpc'', jsonrpc)]
              (own_props (js_get body ''params''));
          cacheableBody = JSON_stringify plat (js_get body ''params'');
          hash = sha256 plat cacheableBody;
          url1 = url\<lparr>pathname := ''/posts'' @ pathname url @ hash\<rparr>
      in \<lparr>req_method = ''GET'', req_url = url1, req_headers = req_headers request,
          req_body = NoBody\<rparr>)"

definition bypassCache :: "jsval \<Rightarrow> bool" where
  "bypassCache method = (method = JStr ''eth_blockNumber'' \<or> method = JStr ''eth_estimateGas'')"

definition handlePost ::
  "config \<Rightarrow> platform \<Rightarrow> attempt list \<Rightarrow> request \<Rightarrow> cache
     \<Rightarrow> response outcome \<times> cache \<times> event list" where
  "handlePost cfg plat env request cache =
     (let url = req_url request
      in case body_json (req_body request) of
           Inl e \<Rightarrow> (Thrown e, cache, [])
         | Inr body \<Rightarrow>
             if body = JNull \<or> body = JUndefined
             then (Thrown (TypeError ''Cannot destructure property method''), cache, [])
             else
               (let method = js_get body ''method'';
                    id = js_get body ''id''
                in if bypassCache method
                   then
                     (case getOriginResponse cfg plat env url (FetchEvent request) None cache of
                        (res, cache1, evs) \<Rightarrow>
                          (bind_outcome res
                             (\<lambda>response. settle (formatResponse cfg response (Some [(''id'', id)]))),
                           cache1, evs))
                   else
                     (let cacheKey = post_cacheKey plat request body
                      in case cache cacheKey of
                           Some response \<Rightarrow>
                             (settle (formatResponse cfg response (Some [(''id'', id)])),
                              cache, [CacheMatch cacheKey])
                         | None \<Rightarrow>
                             (case getOriginResponse cfg plat env (req_url cacheKey)
                                     (FetchEvent request) (Some cacheKey) cache of
                                (res, cache1, evs) \<Rightarrow>
                                  (bind_outcome res
                                     (\<lambda>response.
                                        settle (formatResponse cfg response (Some [(''id'', id)]))),
                                   cache1, CacheMatch cacheKey # evs)))))"

text \<open>
  \<open>handlePost\<close> of \<open>src/index.js\<close>: no bypass; \<open>body.id\<close> is read from the parsed body
  (a TypeError on \<open>null\<close>).
\<close>

definition handlePost0 ::
  "config \<Rightarrow> platform \<Rightarrow> attempt list \<Rightarrow> request \<Rightarrow> cache
     \<Rightarrow> response outcome \<times> cache \<times> event list" where
  "handlePost0 cfg plat env request cache =
     (case body_json (req_body request) of
        Inl e \<Rightarrow> (Thrown e, cache, [])
      | Inr body \<Rightarrow>
          if body = JNull \<or> body = JUndefined
          then (Thrown (TypeError ''Cannot read properties of null (reading id)''), cache, [])
          else
            (let id = js_get body ''id'';
                 cacheKey = post_cacheKey plat request body
             in case cache cacheKey of
                  Some response \<Rightarrow>
                    (settle (formatResponse cfg response (Some [(''id'', id)])),
                     cache, [CacheMatch cacheKey])
                | None \<Rightarrow>
                    (case getOriginResponse0 cfg plat env (req_url cacheKey)
                            (FetchEvent request) cacheKey cache of
                       (res, cache1, evs) \<Rightarrow>
                         (bind_outcome res
                            (\<lambda>response.
                               settle (formatResponse cfg response (Some [(''id'', id)]))),
                          cache1, CacheMatch cacheKey # evs))))"

section \<open>The specification's words\<close>

text \<open>
  An attempt fails by timeout, by network failure or by a status that is not ok; it is
  good for a response when the fetch resolves with that response before the timer and
  the response is ok.
\<close>

definition failed_attempt :: "config \<Rightarrow> attempt \<Rightarrow> bool" where
  "failed_attempt cfg a =
     (case net a of
        Hangs \<Rightarrow> True
      | Fails t e \<Rightarrow> True
      | Responds t r \<Rightarrow> PROVIDER_TIMEOUT cfg \<le> t \<or> \<not> ok r)"

definition good_attempt :: "config \<Rightarrow> attempt \<Rightarrow> response \<Rightarrow> bool" where
  "good_attempt cfg a r =
     (case net a of
        Responds t r1 \<Rightarrow> t < PROVIDER_TIMEOUT cfg \<and> ok r1 \<and> r1 = r
      | _ \<Rightarrow> False)"

text \<open>The error a failed attempt is caught with, and logged.\<close>

definition attempt_error :: "config \<Rightarrow> url \<Rightarrow> attempt \<Rightarrow> error" where
  "attempt_error cfg u a =
     (case net a of
        Hangs \<Rightarrow> Timeout
      | Fails t e \<Rightarrow> if t < PROVIDER_TIMEOUT cfg then NetworkError e else Timeout
      | Responds t r \<Rightarrow>
          if t < PROVIDER_TIMEOUT cfg then NotOk (url_toString u @ '' not ok!'') else Timeout)"

definition is_failure :: "error \<Rightarrow> bool" where
  "is_failure e = (case e of Timeout \<Rightarrow> True | NetworkError m \<Rightarrow> True | NotOk m \<Rightarrow> True | _ \<Rightarrow> False)"

definition is_cache_event :: "event \<Rightarrow> bool" where
  "is_cache_event e = (case e of CacheMatch k \<Rightarrow> True | CachePut k r \<Rightarrow> True | _ \<Rightarrow> False)"

definition is_fetch :: "event \<Rightarrow> bool" where
  "is_fetch e = (case e of Fetch u q \<Rightarrow> True | _ \<Rightarrow> False)"

definition is_put :: "event \<Rightarrow> bool" where
  "is_put e = (case e of CachePut k r \<Rightarrow> True | _ \<Rightarrow> False)"

text \<open>The header contract of a formatted response, and the stamp of a stored one.\<close>

definition has_browser_headers :: "config \<Rightarrow> response \<Rightarrow> bool" where
  "has_browser_headers cfg r =
     (headers_get (res_headers r) ''Cache-Control'' =
        Some (''max-age='' @ toString 10 (BROWSER_CACHE_TTL cfg))
      \<and> headers_get (res_headers r) ''Access-Control-Allow-Origin'' = Some ''*''
      \<and> headers_get (res_headers r) ''Access-Control-Allow-Method'' = Some ''*''
      \<and> headers_get (res_headers r) ''Access-Control-Allow-Headers'' = Some ''*'')"

definition has_edge_header :: "config \<Rightarrow> response \<Rightarrow> bool" where
  "has_edge_header cfg r =
     (headers_get (res_headers r) ''Cache-Control'' =
        Some (''public, max-age='' @ toString 10 (EDGE_CACHE_TTL cfg)))"

text \<open>The provider's host and path on the URL, as \<open>tryProvider\<close> rewrites it.\<close>

definition aimed_at :: "url \<Rightarrow> url \<Rightarrow> url" where
  "aimed_at url provider = url\<lparr>hostname := hostname provider, pathname := pathname provider\<rparr>"

section \<open>An example deployment\<close>

text \<open>
  Concrete values for the examples below: two providers, the default TTLs and timeout,
  and stand-ins for the platform's functions. \<open>demo_text\<close> writes JSON for values whose
  strings need no escape; \<open>demo_digest\<close> is a two-byte checksum standing in the place of
  SHA-256.
\<close>

fun join_comma :: "string list \<Rightarrow> string" where
  "join_comma [] = []"
| "join_comma [x] = x"
| "join_comma (x # y # ys) = x @ '','' @ join_comma (y # ys)"

primrec demo_text :: "jsval \<Rightarrow> string" where
  "demo_text JUndefined = []"
| "demo_text JNull = ''null''"
| "demo_text (JBool b) = (if b then ''true'' else ''false'')"
| "demo_text (JNum n) = (if n < 0 then ''-'' else []) @ toString 10 (nat \<bar>n\<bar>)"
| "demo_text (JStr s) = [CHR 0x22] @ s @ [CHR 0x22]"
| "demo_text (JArr xs) = ''['' @ join_comma (map demo_text xs) @ '']''"
| "demo_text (JObj kvs) =
     ''{'' @ join_comma (map (\<lambda>kv. [CHR 0x22] @ fst kv @ [CHR 0x22] @ '':'' @ snd kv)
                          (map (map_prod id demo_text) kvs)) @ ''}''"

definition demo_digest :: "8 word list \<Rightarrow> 8 word list" where
  "demo_digest bs = [of_nat (length bs), foldl (+) 0 bs]"

definition demo_platform :: platform where
  "demo_platform = \<lparr>digest = demo_digest, json_text = demo_text, own_fields = False\<rparr>"

definition provider_a :: url where
  "provider_a =
     \<lparr>protocol = ''https:'', hostname = ''a.example'', port = [], pathname = ''/rpc'',
      search = []\<rparr>"

definition provider_b :: url where
  "provider_b =
     \<lparr>protocol = ''https:'', hostname = ''b.example'', port = [], pathname = ''/v3/key'',
      search = []\<rparr>"

definition demo_config :: config where
  "demo_config =
     \<lparr>EDGE_CACHE_TTL = 60, BROWSER_CACHE_TTL = 0, PROVIDERS = [provider_a, provider_b],
      PROVIDER_TIMEOUT = 5000\<rparr>"

definition proxy_url :: url where
  "proxy_url =
     \<lparr>protocol = ''https:'', hostname = ''proxy.example'', port = [], pathname = ''/eth'',
      search = []\<rparr>"

definition post_request :: "jsval \<Rightarrow> request" where
  "post_request b =
     \<lparr>req_method = ''POST'', req_url = proxy_url,
      req_headers = [(''content-type'', ''application/json'')], req_body = JsonText b\<rparr>"

definition get_request :: request where
  "get_request =
     \<lparr>req_method = ''GET'', req_url = proxy_url, req_headers = [], req_body = NoBody\<rparr>"

definition rpc_body :: "jsval \<Rightarrow> string \<Rightarrow> jsval" where
  "rpc_body idv m =
     JObj [(''jsonrpc'', JStr ''2.0''), (''id'', idv), (''method'', JStr m),
           (''params'', JArr [JStr ''0xabc'', JStr ''latest''])]"

definition origin_response :: "nat \<Rightarrow> jsval \<Rightarrow> response" where
  "origin_response st v =
     \<lparr>status = st, statusText = [],
      res_headers = [(''content-type'', ''application/json''), (''cache-control'', ''no-store'')],
      res_body = JsonText v\<rparr>"

definition rpc_result :: jsval where
  "rpc_result = JObj [(''jsonrpc'', JStr ''2.0''), (''id'', JNum 7), (''result'', JStr ''0x10'')]"

text \<open>A request body that has no \<open>id\<close>.\<close>

definition body_without_id :: jsval where
  "body_without_id =
     JObj [(''jsonrpc'', JStr ''2.0''), (''method'', JStr ''eth_call''), (''params'', JArr [])]"

text \<open>
  Four attempts: the first hangs, the second answers 500, the third answers after the
  timer, the fourth answers 200 in time.
\<close>

definition demo_env :: "attempt list" where
  "demo_env =
     [\<lparr>rnd = 1 / 4, net = Hangs\<rparr>,
      \<lparr>rnd = 3 / 4, net = Responds 100 (origin_response 500 rpc_result)\<rparr>,
      \<lparr>rnd = 1 / 2, net = Responds 6000 (origin_response 200 rpc_result)\<rparr>,
      \<lparr>rnd = 9 / 10, net = Responds 20 (origin_response 200 rpc_result)\<rparr>]"

text \<open>One attempt, answered with status 500 in time.\<close>

definition env_500 :: "attempt list" where
  "env_500 = [\<lparr>rnd = 3 / 4, net = Responds 100 (origin_response 500 rpc_result)\<rparr>]"

definition empty_cache :: cache where
  "empty_cache = (\<lambda>k. None)"

section \<open>Hex digits of the digest\<close>

lemma toString_small: "n < radix \<Longrightarrow> toString radix n = [digit_char n]"
  by (simp add: toString.simps)

lemma toString_two_digits:
  "2 \<le> radix \<Longrightarrow> radix \<le> n \<Longrightarrow> n < radix * radix \<Longrightarrow>
   toString radix n = [digit_char (n div radix), digit_char (n mod radix)]"
proof -
  assume r: "2 \<le> radix" and lo: "radix \<le> n" and hi: "n < radix * radix"
  have "n div radix < radix"
    using hi r by (simp add: less_mult_imp_div_less mult.commute)
  then have "toString radix (n div radix) = [digit_char (n div radix)]"
    by (rule toString_small)
  moreover have "toString radix n = toString radix (n div radix) @ [digit_char (n mod radix)]"
    using r lo by (subst toString.simps) simp
  ultimately show ?thesis by simp
qed

lemma hex_byte_digits:
  "hex_byte b = [digit_char (unat b div 16), digit_char (unat b mod 16)]"
proof (cases "unat b < 16")
  case True
  then have "toString 16 (unat b) = [digit_char (unat b)]"
    by (rule toString_small)
  moreover have "digit_char 0 = CHR ''0''"
    by (simp add: digit_char_def)
  ultimately show ?thesis
    using True by (simp add: hex_byte_def slice_last2_def)
next
  case False
  have "unat b < 256"
    using unsigned_less [of b, where ?'a = nat] by simp
  then have "toString 16 (unat b) = [digit_char (unat b div 16), digit_char (unat b mod 16)]"
    using False by (intro toString_two_digits) simp_all
  then show ?thesis
    by (simp add: hex_byte_def slice_last2_def)
qed

lemma digit_char_hex: "d < 16 \<Longrightarrow> digit_char d \<in> set ''0123456789abcdef''"
proof -
  assume "d < 16"
  then have "d \<in> set [0..<16]" by simp
  then have "d \<in> {0, 1, 2, 3, 4, 5, 6, 7, 8, 9, 10, 11, 12, 13, 14, 15}"
    by (simp add: upt_rec numeral_eq_Suc) 
  then show ?thesis
    by (auto simp: digit_char_def)
qed

lemma hex_byte_lowercase: "set (hex_byte b) \<subseteq> set ''0123456789abcdef''"
proof -
  have "unat b < 256"
    using unsigned_less [of b, where ?'a = nat] by simp
  then have "unat b div 16 < 16" by simp
  moreover have "unat b mod 16 < 16" by simp
  ultimately show ?thesis
    unfolding hex_byte_digits using digit_char_hex by (metis empty_set insert_subset list.simps(15) subsetI empty_iff)
qed

lemma sha256_hex:
  "sha256 plat msg = concat (map hex_byte (digest plat (encode msg)))"
  by (simp add: sha256_def)

lemma length_concat_hex: "length (concat (map hex_byte bs)) = 2 * length bs"
  by (induction bs) (simp_all add: hex_byte_digits)

lemma set_concat_hex: "set (concat (map hex_byte bs)) \<subseteq> set ''0123456789abcdef''"
  using hex_byte_lowercase by (induction bs) auto

section \<open>Steps of the failover loop\<close>

lemma tryProvider_good_step:
  assumes "pick cfg (rnd a) = Some p" and "good_attempt cfg a r"
  shows "tryProvider cfg (a # env) url (Some req) =
           (Returned r,
            [ConsoleLog (''Attempting provider: '' @ hostname p), Fetch (aimed_at url p) (Some req)])"
  using assms
  by (auto simp: good_attempt_def fetchWithTimeout_def clone_def aimed_at_def split: net.splits)

lemma tryProvider_failed_step:
  assumes "pick cfg (rnd a) = Some p" and "failed_attempt cfg a"
  shows "tryProvider cfg (a # env) url (Some req) =
             (fst (tryProvider cfg env (aimed_at url p) (Some req)),
              [ConsoleLog (''Attempting provider: '' @ hostname p),
               Fetch (aimed_at url p) (Some req),
               ConsoleError (attempt_error cfg (aimed_at url p) a)]
                @ snd (tryProvider cfg env (aimed_at url p) (Some req)))"
  using assms
  by (auto simp: failed_attempt_def fetchWithTimeout_def clone_def aimed_at_def attempt_error_def
        Let_def case_prod_beta split: net.splits)

lemma attempt_error_is_failure: "is_failure (attempt_error cfg u a)"
  by (simp add: attempt_error_def is_failure_def split: net.splits)

lemma good_or_failed: "failed_attempt cfg a \<or> (\<exists>r. good_attempt cfg a r)"
  by (auto simp: failed_attempt_def good_attempt_def split: net.splits)

lemma good_not_failed: "good_attempt cfg a r \<Longrightarrow> \<not> failed_attempt cfg a"
  by (auto simp: failed_attempt_def good_attempt_def split: net.splits)

lemma good_attempt_ok: "good_attempt cfg a r \<Longrightarrow> ok r"
  by (auto simp: good_attempt_def split: net.splits)

lemma tryProvider_undefined_step:
  assumes "pick cfg (rnd a) = Some p"
  shows "tryProvider cfg (a # env) url None =
             (fst (tryProvider cfg env (aimed_at url p) None),
              [ConsoleLog (''Attempting provider: '' @ hostname p),
               ConsoleError (TypeError ''Cannot read properties of undefined (reading clone)'')]
                @ snd (tryProvider cfg env (aimed_at url p) None))"
  using assms
  by (simp add: clone_def aimed_at_def Let_def case_prod_beta)

lemma tryProvider_no_pick:
  "pick cfg (rnd a) = None \<Longrightarrow> tryProvider cfg (a # env) url request = (Thrown (TypeError ''Invalid URL''), [])"
  by simp

lemma pick_member: "pick cfg r = Some p \<Longrightarrow> p \<in> set (PROVIDERS cfg)"
  by (auto simp: pick_def Let_def split: if_splits)

lemma tryProvider_undefined_never_returns:
  "fst (tryProvider cfg env url None) \<noteq> Returned r"
proof (induction env arbitrary: url)
  case Nil
  show ?case by simp
next
  case (Cons a env)
  show ?case
  proof (cases "pick cfg (rnd a)")
    case None
    then show ?thesis by (simp only: tryProvider_no_pick) simp
  next
    case (Some p)
    then show ?thesis
      using Cons.IH [of "aimed_at url p"] by (simp only: tryProvider_undefined_step) simp
  qed
qed

lemma tryProvider_undefined_no_fetch:
  "e \<in> set (snd (tryProvider cfg env url None)) \<Longrightarrow> \<not> is_fetch e"
proof (induction env arbitrary: url)
  case Nil
  then show ?case by simp
next
  case (Cons a env)
  show ?case
  proof (cases "pick cfg (rnd a)")
    case None
    then show ?thesis using Cons.prems by (simp only: tryProvider_no_pick) simp
  next
    case (Some p)
    then show ?thesis
      using Cons.IH [of "aimed_at url p"] Cons.prems
      by (simp only: tryProvider_undefined_step) (auto simp: is_fetch_def)
  qed
qed


lemma tryProvider_returned:
  "tryProvider cfg env url (Some req) = (Returned r, evs) \<Longrightarrow>
     (\<exists>a \<in> set env. good_attempt cfg a r) \<and>
     (\<forall>e \<in> set evs. is_fetch e \<longrightarrow>
        (\<exists>u. e = Fetch u (Some req) \<and> (\<exists>p \<in> set (PROVIDERS cfg). hostname u = hostname p \<and> pathname u = pathname p)))"
proof (induction env arbitrary: url evs)
  case Nil
  then show ?case by simp
next
  case (Cons a env)
  show ?case
  proof (cases "pick cfg (rnd a)")
    case None
    then show ?thesis using Cons.prems by (simp only: tryProvider_no_pick) simp
  next
    case (Some p)
    have pm: "p \<in> set (PROVIDERS cfg)" using Some by (rule pick_member)
    have aim: "hostname (aimed_at url p) = hostname p \<and> pathname (aimed_at url p) = pathname p"
      by (simp add: aimed_at_def)
    consider (failed) "failed_attempt cfg a" | (good) r1 where "good_attempt cfg a r1"
      using good_or_failed by blast
    then show ?thesis
    proof cases
      case good
      have "tryProvider cfg (a # env) url (Some req) =
              (Returned r1,
               [ConsoleLog (''Attempting provider: '' @ hostname p), Fetch (aimed_at url p) (Some req)])"
        using Some good by (rule tryProvider_good_step)
      with Cons.prems have "r = r1"
        and "evs = [ConsoleLog (''Attempting provider: '' @ hostname p), Fetch (aimed_at url p) (Some req)]"
        by simp_all
      then show ?thesis using good pm aim by (auto simp: is_fetch_def)
    next
      case failed
      obtain res evs1 where rec: "tryProvider cfg env (aimed_at url p) (Some req) = (res, evs1)"
        by (cases "tryProvider cfg env (aimed_at url p) (Some req)")
      have step: "tryProvider cfg (a # env) url (Some req) =
              (res, [ConsoleLog (''Attempting provider: '' @ hostname p),
                     Fetch (aimed_at url p) (Some req),
                     ConsoleError (attempt_error cfg (aimed_at url p) a)] @ evs1)"
        using tryProvider_failed_step [OF Some failed, of env url req] rec by simp
      with Cons.prems have res: "res = Returned r"
        and evs: "evs = [ConsoleLog (''Attempting provider: '' @ hostname p),
                     Fetch (aimed_at url p) (Some req),
                     ConsoleError (attempt_error cfg (aimed_at url p) a)] @ evs1"
        by simp_all
      have ih: "(\<exists>a \<in> set env. good_attempt cfg a r) \<and>
         (\<forall>e \<in> set evs1. is_fetch e \<longrightarrow>
            (\<exists>u. e = Fetch u (Some req) \<and> (\<exists>p \<in> set (PROVIDERS cfg). hostname u = hostname p \<and> pathname u = pathname p)))"
        using Cons.IH rec res by simp
      show ?thesis
        using ih pm aim unfolding evs by (auto simp: is_fetch_def)
    qed
  qed
qed

lemma pick_in_range:
  assumes "PROVIDERS cfg \<noteq> []" and "0 \<le> r" and "r < 1"
  shows "\<exists>i < length (PROVIDERS cfg). pick cfg r = Some (PROVIDERS cfg ! i) \<and>
           real i \<le> r * real (length (PROVIDERS cfg)) \<and>
           r * real (length (PROVIDERS cfg)) < real i + 1"
proof -
  let ?n = "length (PROVIDERS cfg)"
  let ?i = "\<lfloor>r * real ?n\<rfloor>"
  have n: "0 < real ?n" using assms(1) by simp
  have nonneg: "0 \<le> ?i" using assms(2) by simp
  have "r * real ?n < real ?n" using assms(3) n by simp
  then have "?i < int ?n" by (simp add: floor_less_iff)
  then have lt: "nat ?i < ?n" using nat_less_iff [OF nonneg, of ?n] by blast
  have "pick cfg r = Some (PROVIDERS cfg ! nat ?i)"
    using nonneg lt by (simp add: pick_def Let_def)
  moreover have "real (nat ?i) = of_int ?i"
    using of_nat_nat [OF nonneg, where ?'a = real] by simp
  then have "real (nat ?i) \<le> r * real ?n" and "r * real ?n < real (nat ?i) + 1"
    by linarith+
  ultimately show ?thesis using lt by blast
qed

lemma tryProvider_total:
  assumes "PROVIDERS cfg \<noteq> []"
    and "\<forall>a \<in> set env. 0 \<le> rnd a \<and> rnd a < 1"
    and "\<exists>a \<in> set env. \<exists>r. good_attempt cfg a r"
  shows "\<exists>r evs. tryProvider cfg env url (Some req) = (Returned r, evs)"
  using assms(2,3)
proof (induction env arbitrary: url)
  case Nil
  then show ?case by simp
next
  case (Cons a env)
  obtain p where p: "pick cfg (rnd a) = Some p"
    using pick_in_range [OF assms(1), of "rnd a"] Cons.prems(1) by auto
  consider (failed) "failed_attempt cfg a" | (good) r1 where "good_attempt cfg a r1"
    using good_or_failed by blast
  then show ?case
  proof cases
    case good
    then show ?thesis using tryProvider_good_step [OF p good] by blast
  next
    case failed
    then have later: "\<exists>a \<in> set env. \<exists>r. good_attempt cfg a r"
      using Cons.prems(2) good_not_failed by auto
    have "\<forall>a \<in> set env. 0 \<le> rnd a \<and> rnd a < 1"
      using Cons.prems(1) by simp
    then have "\<exists>r evs. tryProvider cfg env (aimed_at url p) (Some req) = (Returned r, evs)"
      using later by (rule Cons.IH)
    then obtain r evs where "tryProvider cfg env (aimed_at url p) (Some req) = (Returned r, evs)"
      by blast
    then show ?thesis
      using tryProvider_failed_step [OF p failed, of env url req] by simp
  qed
qed

section \<open>The failover loop returns only what it should\<close>

lemma tryProvider_only_good:
  assumes "tryProvider cfg env url request = (Returned r, evs)"
  shows "ok r \<and> (\<exists>a \<in> set env. good_attempt cfg a r) \<and>
     (\<forall>e \<in> set evs. is_fetch e \<longrightarrow>
        (\<exists>u. e = Fetch u request \<and>
           (\<exists>p \<in> set (PROVIDERS cfg). hostname u = hostname p \<and> pathname u = pathname p)))"
proof (cases request)
  case None
  then show ?thesis
    using assms tryProvider_undefined_never_returns [of cfg env url r] by simp
next
  case (Some req)
  then show ?thesis
    using assms tryProvider_returned [of cfg env url req r evs] good_attempt_ok by blast
qed

lemma fetchWithTimeout_wins:
  "(fetchWithTimeout n u q timeout = Inr r) = (\<exists>t. n = Responds t r \<and> t < timeout)"
  by (auto simp: fetchWithTimeout_def split: net.splits)

lemma demo_picks:
  "pick demo_config (1 / 4) = Some provider_a"
  "pick demo_config (3 / 4) = Some provider_b"
  "pick demo_config (1 / 2) = Some provider_b"
  "pick demo_config (9 / 10) = Some provider_b"
  by (simp_all add: pick_def demo_config_def)

lemma demo_ok: "ok (origin_response 200 v)" "\<not> ok (origin_response 500 v)"
  by (simp_all add: ok_def origin_response_def)

lemma demo_run:
  "fst (tryProvider demo_config demo_env url (Some req)) = Returned (origin_response 200 rpc_result)"
  by (simp add: demo_env_def demo_picks demo_ok clone_def fetchWithTimeout_def demo_config_def [THEN arg_cong, of PROVIDER_TIMEOUT] Let_def case_prod_beta)


lemma demo_first_failed: "failed_attempt demo_config \<lparr>rnd = 1 / 4, net = Hangs\<rparr>"
  by (simp add: failed_attempt_def)

lemma demo_last_good:
  "good_attempt demo_config \<lparr>rnd = 9 / 10, net = Responds 20 (origin_response 200 rpc_result)\<rparr>
     (origin_response 200 rpc_result)"
  by (simp add: good_attempt_def demo_config_def demo_ok)

text \<open>
  Claim C1. In \<open>tryProvider\<close>, an attempt's fetch is raced against a timer of
  \<open>PROVIDER_TIMEOUT\<close> milliseconds: the fetch's response is the attempt's only when it
  arrives before the timer. An attempt that fails (timeout, network failure, status not
  ok) logs an error of one of these three kinds and goes on with the rest of the
  attempts, on the URL aimed at the provider picked; a good attempt returns its
  response at once. Whatever the request, a run that returns a response returns an ok
  response of a good attempt, and every fetch of the run was handed the original
  request and aimed at a provider of the pool. With a pool that is not empty and
  \<open>Math.random()\<close> in \<open>[0, 1)\<close>, a run over attempts of which one is good does return;
  and the provider picked is the one whose index \<open>i\<close> has
  \<open>i \<le> Math.random() * length < i + 1\<close>, so every provider owns an interval of the
  same width.
\<close>

theorem tryProvider_failover:
  "((fetchWithTimeout n u q (PROVIDER_TIMEOUT cfg) = Inr r0) =
      (\<exists>t. n = Responds t r0 \<and> t < PROVIDER_TIMEOUT cfg))
   \<and> (pick cfg (rnd a) = Some p \<and> failed_attempt cfg a \<longrightarrow>
        is_failure (attempt_error cfg (aimed_at url p) a) \<and>
        tryProvider cfg (a # env) url (Some req) =
          (fst (tryProvider cfg env (aimed_at url p) (Some req)),
           [ConsoleLog (''Attempting provider: '' @ hostname p),
            Fetch (aimed_at url p) (Some req),
            ConsoleError (attempt_error cfg (aimed_at url p) a)]
             @ snd (tryProvider cfg env (aimed_at url p) (Some req))))
   \<and> (pick cfg (rnd b) = Some p1 \<and> good_attempt cfg b r1 \<longrightarrow>
        tryProvider cfg (b # env) url (Some req) =
          (Returned r1,
           [ConsoleLog (''Attempting provider: '' @ hostname p1),
            Fetch (aimed_at url p1) (Some req)]))
   \<and> (tryProvider cfg env1 url request = (Returned r, evs) \<longrightarrow>
        ok r \<and> (\<exists>c \<in> set env1. good_attempt cfg c r) \<and>
        (\<forall>e \<in> set evs. is_fetch e \<longrightarrow>
           (\<exists>v. e = Fetch v request \<and>
              (\<exists>p2 \<in> set (PROVIDERS cfg).
                 hostname v = hostname p2 \<and> pathname v = pathname p2))))
   \<and> (PROVIDERS cfg \<noteq> [] \<and> (\<forall>c \<in> set env2. 0 \<le> rnd c \<and> rnd c < 1) \<and>
        (\<exists>c \<in> set env2. \<exists>r2. good_attempt cfg c r2) \<longrightarrow>
        (\<exists>r2 evs2. tryProvider cfg env2 url (Some req) = (Returned r2, evs2)))
   \<and> (PROVIDERS cfg \<noteq> [] \<and> 0 \<le> x \<and> x < 1 \<longrightarrow>
        (\<exists>i < length (PROVIDERS cfg). pick cfg x = Some (PROVIDERS cfg ! i) \<and>
           real i \<le> x * real (length (PROVIDERS cfg)) \<and>
           x * real (length (PROVIDERS cfg)) < real i + 1))"
proof (intro conjI impI)
  show "(fetchWithTimeout n u q (PROVIDER_TIMEOUT cfg) = Inr r0) =
      (\<exists>t. n = Responds t r0 \<and> t < PROVIDER_TIMEOUT cfg)"
    by (rule fetchWithTimeout_wins)
next
  show "is_failure (attempt_error cfg (aimed_at url p) a)"
    by (rule attempt_error_is_failure)
next
  assume "pick cfg (rnd a) = Some p \<and> failed_attempt cfg a"
  then show "tryProvider cfg (a # env) url (Some req) =
          (fst (tryProvider cfg env (aimed_at url p) (Some req)),
           [ConsoleLog (''Attempting provider: '' @ hostname p),
            Fetch (aimed_at url p) (Some req),
            ConsoleError (attempt_error cfg (aimed_at url p) a)]
             @ snd (tryProvider cfg env (aimed_at url p) (Some req)))"
    using tryProvider_failed_step by blast
next
  assume "pick cfg (rnd b) = Some p1 \<and> good_attempt cfg b r1"
  then show "tryProvider cfg (b # env) url (Some req) =
          (Returned r1,
           [ConsoleLog (''Attempting provider: '' @ hostname p1),
            Fetch (aimed_at url p1) (Some req)])"
    using tryProvider_good_step by blast
next
  assume run: "tryProvider cfg env1 url request = (Returned r, evs)"
  show "ok r" using tryProvider_only_good [OF run] by blast
  show "\<exists>c \<in> set env1. good_attempt cfg c r" using tryProvider_only_good [OF run] by blast
  show "\<forall>e \<in> set evs. is_fetch e \<longrightarrow>
           (\<exists>v. e = Fetch v request \<and>
              (\<exists>p2 \<in> set (PROVIDERS cfg).
                 hostname v = hostname p2 \<and> pathname v = pathname p2))"
    using tryProvider_only_good [OF run] by blast
next
  assume "PROVIDERS cfg \<noteq> [] \<and> (\<forall>c \<in> set env2. 0 \<le> rnd c \<and> rnd c < 1) \<and>
        (\<exists>c \<in> set env2. \<exists>r2. good_attempt cfg c r2)"
  then show "\<exists>r2 evs2. tryProvider cfg env2 url (Some req) = (Returned r2, evs2)"
    using tryProvider_total [of cfg env2 url req] by blast
next
  assume "PROVIDERS cfg \<noteq> [] \<and> 0 \<le> x \<and> x < 1"
  then show "\<exists>i < length (PROVIDERS cfg). pick cfg x = Some (PROVIDERS cfg ! i) \<and>
           real i \<le> x * real (length (PROVIDERS cfg)) \<and>
           x * real (length (PROVIDERS cfg)) < real i + 1"
    using pick_in_range [of cfg x] by blast
qed

theorem tryProvider_failover_witness:
  "ok (origin_response 200 rpc_result)
   \<and> (\<exists>c \<in> set demo_env. good_attempt demo_config c (origin_response 200 rpc_result))
   \<and> (\<exists>r2 evs2. tryProvider demo_config demo_env proxy_url (Some get_request) = (Returned r2, evs2))
   \<and> (\<exists>i < length (PROVIDERS demo_config).
         pick demo_config (1 / 4) = Some (PROVIDERS demo_config ! i))
   \<and> tryProvider demo_config (\<lparr>rnd = 1 / 4, net = Hangs\<rparr> # tl demo_env) proxy_url (Some get_request) =
        (fst (tryProvider demo_config (tl demo_env) (aimed_at proxy_url provider_a) (Some get_request)),
         [ConsoleLog (''Attempting provider: '' @ hostname provider_a),
          Fetch (aimed_at proxy_url provider_a) (Some get_request),
          ConsoleError (attempt_error demo_config (aimed_at proxy_url provider_a)
             \<lparr>rnd = 1 / 4, net = Hangs\<rparr>)]
           @ snd (tryProvider demo_config (tl demo_env) (aimed_at proxy_url provider_a) (Some get_request)))
   \<and> tryProvider demo_config
        (\<lparr>rnd = 9 / 10, net = Responds 20 (origin_response 200 rpc_result)\<rparr> # tl demo_env)
        proxy_url (Some get_request) =
        (Returned (origin_response 200 rpc_result),
         [ConsoleLog (''Attempting provider: '' @ hostname provider_b),
          Fetch (aimed_at proxy_url provider_b) (Some get_request)])"
proof -
  let ?R = "origin_response 200 rpc_result"
  let ?run = "tryProvider demo_config demo_env proxy_url (Some get_request)"
  have run: "?run = (Returned ?R, snd ?run)"
    using demo_run [of proxy_url get_request] by (metis prod.collapse)
  have pool: "PROVIDERS demo_config \<noteq> []"
    by (simp add: demo_config_def)
  have rnds: "\<forall>c \<in> set demo_env. 0 \<le> rnd c \<and> rnd c < 1"
    by (simp add: demo_env_def)
  have good: "\<exists>c \<in> set demo_env. \<exists>r2. good_attempt demo_config c r2"
    using demo_last_good by (auto simp: demo_env_def)
  have x: "(0::real) \<le> 1 / 4 \<and> (1::real) / 4 < 1"
    by simp
  have pa: "pick demo_config (rnd \<lparr>rnd = 1 / 4, net = Hangs\<rparr>) = Some provider_a"
    by (simp add: demo_picks)
  have pb: "pick demo_config
      (rnd \<lparr>rnd = 9 / 10, net = Responds 20 (origin_response 200 rpc_result)\<rparr>) = Some provider_b"
    by (simp add: demo_picks)
  note inst = tryProvider_failover
    [where cfg = demo_config and a = "\<lparr>rnd = 1 / 4, net = Hangs\<rparr>" and p = provider_a
       and url = proxy_url and env = "tl demo_env" and req = get_request
       and b = "\<lparr>rnd = 9 / 10, net = Responds 20 (origin_response 200 rpc_result)\<rparr>"
       and ?p1.0 = provider_b and ?r1.0 = ?R and ?env1.0 = demo_env
       and request = "Some get_request" and r = ?R and evs = "snd ?run"
       and ?env2.0 = demo_env and x = "1 / 4" and n = Hangs and u = proxy_url
       and q = get_request and ?r0.0 = ?R]
  show ?thesis
    using inst run pool rnds good x pa pb demo_first_failed demo_last_good
    by (simp del: tryProvider.simps) blast
qed

section \<open>The cache key and the response headers\<close>

lemma post_cacheKey_params_only:
  "req_url request = req_url request1 \<Longrightarrow> req_headers request = req_headers request1 \<Longrightarrow>
   js_get body ''params'' = js_get body1 ''params'' \<Longrightarrow>
   post_cacheKey plat request body = post_cacheKey plat request1 body1"
  by (simp add: post_cacheKey_def Let_def)

lemma demo_hash:
  "sha256 demo_platform (JSON_stringify demo_platform (JArr [JStr ''0xabc'', JStr ''latest''])) = ''12c7''"
  apply (simp add: sha256_def JSON_stringify_def demo_platform_def demo_digest_def encode_def hex_byte_digits)
  apply (simp add: digit_char_def)
  done

text \<open>
  Claim C2. The cache key of a POST is a GET request; its path is \<open>"/posts"\<close>, then the
  path of the request's URL, then \<open>sha256\<close> of \<open>JSON.stringify(body.params)\<close>; the rest of
  the URL and the headers are the request's. \<open>sha256\<close> writes every byte of the digest as
  two digits, the high one first, out of \<open>0123456789abcdef\<close>, so its length is twice
  the digest's. Two requests with the same URL and headers whose bodies have the same
  \<open>params\<close> have the same key.
\<close>

theorem post_cacheKey_derivation:
  "req_method (post_cacheKey plat request body) = ''GET''
   \<and> pathname (req_url (post_cacheKey plat request body)) =
       ''/posts'' @ pathname (req_url request)
         @ sha256 plat (JSON_stringify plat (js_get body ''params''))
   \<and> req_url (post_cacheKey plat request body)\<lparr>pathname := pathname (req_url request)\<rparr> =
       req_url request
   \<and> req_headers (post_cacheKey plat request body) = req_headers request
   \<and> sha256 plat message =
       concat (map (\<lambda>b. [digit_char (unat b div 16), digit_char (unat b mod 16)])
                 (digest plat (encode message)))
   \<and> set (sha256 plat message) \<subseteq> set ''0123456789abcdef''
   \<and> length (sha256 plat message) = 2 * length (digest plat (encode message))
   \<and> (req_url request = req_url request1 \<and> req_headers request = req_headers request1 \<and>
        js_get body ''params'' = js_get body1 ''params'' \<longrightarrow>
        post_cacheKey plat request body = post_cacheKey plat request1 body1)"
proof -
  have hex: "hex_byte = (\<lambda>b. [digit_char (unat b div 16), digit_char (unat b mod 16)])"
    by (rule ext) (rule hex_byte_digits)
  have "sha256 plat message =
       concat (map (\<lambda>b. [digit_char (unat b div 16), digit_char (unat b mod 16)])
                 (digest plat (encode message)))"
    by (simp only: sha256_hex hex)
  moreover have "set (sha256 plat message) \<subseteq> set ''0123456789abcdef''"
    by (simp only: sha256_hex set_concat_hex)
  moreover have "length (sha256 plat message) = 2 * length (digest plat (encode message))"
    by (simp only: sha256_hex length_concat_hex)
  moreover have "req_url request = req_url request1 \<and> req_headers request = req_headers request1 \<and>
        js_get body ''params'' = js_get body1 ''params'' \<longrightarrow>
        post_cacheKey plat request body = post_cacheKey plat request1 body1"
    using post_cacheKey_params_only by blast
  ultimately show ?thesis
    by (simp add: post_cacheKey_def Let_def)
qed


lemma demo_params:
  "js_get (rpc_body idv m) ''params'' = JArr [JStr ''0xabc'', JStr ''latest'']"
  "js_get (rpc_body idv m) ''id'' = idv"
  "js_get (rpc_body idv m) ''method'' = JStr m"
  by (simp_all add: js_get_def rpc_body_def)

theorem post_cacheKey_derivation_witness:
  "req_method (post_cacheKey demo_platform (post_request (rpc_body (JStr ''abc'') ''eth_call''))
       (rpc_body (JStr ''abc'') ''eth_call'')) = ''GET''
   \<and> pathname (req_url (post_cacheKey demo_platform
         (post_request (rpc_body (JStr ''abc'') ''eth_call''))
         (rpc_body (JStr ''abc'') ''eth_call''))) = ''/posts/eth12c7''
   \<and> req_headers (post_cacheKey demo_platform
         (post_request (rpc_body (JStr ''abc'') ''eth_call''))
         (rpc_body (JStr ''abc'') ''eth_call'')) = [(''content-type'', ''application/json'')]
   \<and> post_cacheKey demo_platform (post_request (rpc_body (JStr ''abc'') ''eth_call''))
         (rpc_body (JStr ''abc'') ''eth_call'') =
       post_cacheKey demo_platform (post_request (rpc_body (JNum 1) ''eth_call''))
         (rpc_body (JNum 1) ''eth_call'')"
proof -
  let ?b = "rpc_body (JStr ''abc'') ''eth_call''"
  let ?b1 = "rpc_body (JNum 1) ''eth_call''"
  let ?K = "post_cacheKey demo_platform (post_request ?b) ?b"
  note inst = post_cacheKey_derivation
      [where plat = demo_platform and request = "post_request ?b" and body = ?b
         and ?request1.0 = "post_request ?b1" and ?body1.0 = ?b1
         and message = "JSON_stringify demo_platform (JArr [JStr ''0xabc'', JStr ''latest''])"]
  have same: "req_url (post_request ?b) = req_url (post_request ?b1) \<and>
      req_headers (post_request ?b) = req_headers (post_request ?b1) \<and>
      js_get ?b ''params'' = js_get ?b1 ''params''"
    by (simp add: post_request_def demo_params)
  have m: "req_method ?K = ''GET''"
    using inst by blast
  have "pathname (req_url ?K) =
       ''/posts'' @ pathname (req_url (post_request ?b))
         @ sha256 demo_platform (JSON_stringify demo_platform (js_get ?b ''params''))"
    using inst by blast
  then have p: "pathname (req_url ?K) = ''/posts/eth12c7''"
    by (simp add: post_request_def proxy_url_def demo_params demo_hash)
  have "req_headers ?K = req_headers (post_request ?b)"
    using inst by blast
  then have h: "req_headers ?K = [(''content-type'', ''application/json'')]"
    by (simp add: post_request_def)
  have e: "?K = post_cacheKey demo_platform (post_request ?b1) ?b1"
    using inst same by blast
  show ?thesis
    using m p h e by blast
qed

lemma map_of_filter_key:
  "map_of (filter (\<lambda>kv. fst kv \<noteq> k) hs) k1 = (if k1 = k then None else map_of hs k1)"
  by (induction hs) auto

lemma headers_get_set:
  "headers_get (headers_set n v hs) m =
     (if map lower_char m = map lower_char n then Some v else headers_get hs m)"
  by (auto simp: headers_get_def headers_set_def map_of_filter_key map_add_def split: option.splits)

lemma lower_names:
  "map lower_char ''Cache-Control'' = ''cache-control''"
  "map lower_char ''Access-Control-Allow-Method'' = ''access-control-allow-method''"
  "map lower_char ''Access-Control-Allow-Origin'' = ''access-control-allow-origin''"
  "map lower_char ''Access-Control-Allow-Headers'' = ''access-control-allow-headers''"
  "map lower_char ''Content-Type'' = ''content-type''"
  by (simp_all add: lower_char_def)

lemma browser_headers_get:
  "headers_get (browser_headers cfg hs) ''Cache-Control'' =
     Some (''max-age='' @ toString 10 (BROWSER_CACHE_TTL cfg))"
  "headers_get (browser_headers cfg hs) ''Access-Control-Allow-Origin'' = Some ''*''"
  "headers_get (browser_headers cfg hs) ''Access-Control-Allow-Method'' = Some ''*''"
  "headers_get (browser_headers cfg hs) ''Access-Control-Allow-Headers'' = Some ''*''"
  by (simp_all add: browser_headers_def headers_get_set lower_names)

lemma edge_headers_get:
  "headers_get (edge_headers cfg) ''Cache-Control'' =
     Some (''public, max-age='' @ toString 10 (EDGE_CACHE_TTL cfg))"
  by (simp add: edge_headers_def headers_init_def headers_get_set)

lemma formatResponse_headers:
  "formatResponse cfg response body = Inr r \<Longrightarrow> \<exists>hs. res_headers r = browser_headers cfg hs"
  by (auto simp: formatResponse_def Let_def split: option.splits sum.splits)

section \<open>Merging the extra fields\<close>

lemma map_of_obj_set: "map_of (obj_set k v kvs) = (map_of kvs)(k \<mapsto> v)"
proof (cases "map_of kvs k = None")
  case True
  then show ?thesis
    by (auto simp: obj_set_def map_add_def fun_eq_iff split: option.splits)
next
  case False
  have "map_of (map (\<lambda>kv. if fst kv = k then (k, v) else kv) kvs) k1 =
          (if k1 = k then (if map_of kvs k = None then None else Some v) else map_of kvs k1)" for k1
    by (induction kvs) auto
  then show ?thesis
    using False by (auto simp: obj_set_def fun_eq_iff)
qed

lemma obj_set_values: "(k, x) \<in> set (obj_set k v kvs) \<Longrightarrow> x = v"
  by (auto simp: obj_set_def map_of_eq_None_iff image_iff split: if_splits)

lemma keys_replace:
  "map fst (map (\<lambda>kv. if fst kv = k then (k, v) else kv) kvs) = map fst kvs"
  by (induction kvs) simp_all

lemma distinct_obj_set:
  "distinct (map fst kvs) \<Longrightarrow> distinct (map fst (obj_set k v kvs))"
proof (cases "map_of kvs k = None")
  case True
  assume "distinct (map fst kvs)"
  moreover have "k \<notin> fst ` set kvs"
    using True by (simp add: map_of_eq_None_iff)
  ultimately show ?thesis
    using True by (simp add: obj_set_def)
next
  case False
  assume d: "distinct (map fst kvs)"
  have "obj_set k v kvs = map (\<lambda>kv. if fst kv = k then (k, v) else kv) kvs"
    by (simp only: obj_set_def False if_False)
  then show ?thesis
    using d by (simp only: keys_replace)
qed

lemma distinct_object_assign:
  "distinct (map fst t) \<Longrightarrow> distinct (map fst (object_assign t ps))"
  unfolding object_assign_def
  by (induction ps arbitrary: t) (simp_all add: distinct_obj_set)

lemma object_assign_fresh:
  "distinct (map fst (t @ ps)) \<Longrightarrow> object_assign t ps = t @ ps"
  unfolding object_assign_def
proof (induction ps arbitrary: t)
  case Nil
  show ?case by simp
next
  case (Cons kv ps)
  have "map_of t (fst kv) = None"
    using Cons.prems by (auto simp: map_of_eq_None_iff)
  then have "obj_set (fst kv) (snd kv) t = t @ [kv]"
    by (simp add: obj_set_def)
  moreover have "distinct (map fst ((t @ [kv]) @ ps))"
    using Cons.prems by simp
  ultimately show ?case
    using Cons.IH [of "t @ [kv]"] by simp
qed

lemma object_spread_id:
  "object_spread a [(k, v)] = JObj (obj_set k v (object_assign [] a))"
  by (simp add: object_spread_def object_assign_def)

lemma js_get_spread_id:
  "js_get (object_spread a [(k, v)]) k1 =
     (if k1 = k then v else js_get (JObj (object_assign [] a)) k1)"
  by (simp add: object_spread_id js_get_def map_of_obj_set)

lemma json_of_undefined: "(json_of v = JUndefined) = (v = JUndefined)"
  by (cases v) simp_all

lemma map_of_json_props:
  "distinct (map fst kvs) \<Longrightarrow>
   map_of (filter (\<lambda>kv. snd kv \<noteq> JUndefined) (map (map_prod id json_of) kvs)) k =
     (case map_of kvs k of
        None \<Rightarrow> None
      | Some v \<Rightarrow> if v = JUndefined then None else Some (json_of v))"
proof (induction kvs)
  case Nil
  show ?case by simp
next
  case (Cons kv kvs)
  have absent: "fst kv \<notin> fst ` set kvs"
    using Cons.prems by simp
  have "map_of (filter (\<lambda>kv. snd kv \<noteq> JUndefined) (map (map_prod id json_of) kvs)) (fst kv) = None"
    using absent by (auto simp: map_of_eq_None_iff image_iff)
  moreover have "map_of kvs (fst kv) = None"
    using absent by (simp add: map_of_eq_None_iff)
  ultimately show ?case
    using Cons by (cases kv) (auto simp: json_of_undefined)
qed

lemma js_get_json_of:
  "distinct (map fst kvs) \<Longrightarrow> js_get (json_of (JObj kvs)) k = json_of (js_get (JObj kvs) k)"
  by (simp add: js_get_def map_of_json_props split: option.splits)

lemma spread_distinct: "distinct (map fst (obj_set k v (object_assign [] a)))"
  by (simp add: distinct_obj_set distinct_object_assign)

lemma formatResponse_extra:
  assumes "formatResponse cfg response (Some [(k, v)]) = Inr r"
  shows "\<exists>orig. res_body response = JsonText orig \<and>
           res_body r = JsonText (json_of (object_spread (own_props orig) [(k, v)])) \<and>
           status r = status response"
  using assms
  by (auto simp: formatResponse_def body_json_def text_response_def Let_def
        split: sum.splits body.splits)

lemma merged_fields:
  "js_get (json_of (object_spread a [(k, v)])) k1 =
     json_of (if k1 = k then v else js_get (JObj (object_assign [] a)) k1)"
proof -
  have "js_get (json_of (object_spread a [(k, v)])) k1 =
          json_of (js_get (object_spread a [(k, v)]) k1)"
    unfolding object_spread_id by (rule js_get_json_of) (rule spread_distinct)
  then show ?thesis
    by (simp add: js_get_spread_id)
qed

lemma merged_without_undefined:
  "json_of (object_spread a [(k, JUndefined)]) = JObj kvs \<Longrightarrow> k \<notin> fst ` set kvs"
proof
  assume eq: "json_of (object_spread a [(k, JUndefined)]) = JObj kvs" and "k \<in> fst ` set kvs"
  then obtain x where x: "(k, x) \<in> set kvs" by auto
  have kvs: "kvs = filter (\<lambda>kv. snd kv \<noteq> JUndefined)
                (map (map_prod id json_of) (obj_set k JUndefined (object_assign [] a)))"
    using eq by (simp add: object_spread_id)
  then obtain y where "(k, y) \<in> set (obj_set k JUndefined (object_assign [] a))"
    and "json_of y \<noteq> JUndefined"
    using x by auto
  then show False
    using obj_set_values [of k y JUndefined "object_assign [] a"] by simp
qed

section \<open>The handlers, case by case\<close>

lemma getOriginResponse_no_key:
  "getOriginResponse cfg plat env url (FetchEvent request) None cache =
     (fst (tryProvider cfg env url (Some request)), cache,
      snd (tryProvider cfg env url (Some request)))"
  by (cases "tryProvider cfg env url (Some request)")
     (simp add: getOriginResponse_def event_request_def split: outcome.splits)

lemma getOriginResponse_stored:
  assumes "tryProvider cfg env url (Some request) = (Returned r, evs)"
  shows "getOriginResponse cfg plat env url (FetchEvent request) (Some key) cache =
     (Returned (restamp plat r (edge_headers cfg)),
      cache(key \<mapsto> restamp plat r (edge_headers cfg)),
      evs @ [CachePut key (restamp plat r (edge_headers cfg))])"
  using assms by (simp add: getOriginResponse_def event_request_def Let_def)

lemma getOriginResponse_not_returned:
  assumes "\<forall>r. fst (tryProvider cfg env url (event_request event)) \<noteq> Returned r"
  shows "getOriginResponse cfg plat env url event key cache =
     (fst (tryProvider cfg env url (event_request event)), cache,
      snd (tryProvider cfg env url (event_request event)))"
  using assms
  by (cases "tryProvider cfg env url (event_request event)")
     (auto simp: getOriginResponse_def split: outcome.splits)

lemma handlePost_invalid:
  "body_json (req_body request) = Inl e \<Longrightarrow>
   handlePost cfg plat env request cache = (Thrown e, cache, [])"
  by (simp add: handlePost_def)

lemma handlePost_null:
  "body_json (req_body request) = Inr body \<Longrightarrow> body = JNull \<or> body = JUndefined \<Longrightarrow>
   handlePost cfg plat env request cache =
     (Thrown (TypeError ''Cannot destructure property method''), cache, [])"
  by (auto simp: handlePost_def)

lemma bypass_not_null: "bypassCache (js_get body ''method'') \<Longrightarrow> body \<noteq> JNull \<and> body \<noteq> JUndefined"
  by (auto simp: bypassCache_def js_get_def)

lemma handlePost_bypass:
  assumes "body_json (req_body request) = Inr body" and "bypassCache (js_get body ''method'')"
  shows "handlePost cfg plat env request cache =
     (bind_outcome (fst (tryProvider cfg env (req_url request) (Some request)))
        (\<lambda>response. settle (formatResponse cfg response (Some [(''id'', js_get body ''id'')]))),
      cache, snd (tryProvider cfg env (req_url request) (Some request)))"
  using assms bypass_not_null [OF assms(2)]
  by (simp add: handlePost_def Let_def getOriginResponse_no_key)

lemma handlePost_hit:
  assumes "body_json (req_body request) = Inr body" and "body \<noteq> JNull" and "body \<noteq> JUndefined"
    and "\<not> bypassCache (js_get body ''method'')"
    and "cache (post_cacheKey plat request body) = Some response"
  shows "handlePost cfg plat env request cache =
     (settle (formatResponse cfg response (Some [(''id'', js_get body ''id'')])), cache,
      [CacheMatch (post_cacheKey plat request body)])"
  using assms by (simp add: handlePost_def Let_def)

lemma handlePost_miss_returned:
  assumes "body_json (req_body request) = Inr body" and "body \<noteq> JNull" and "body \<noteq> JUndefined"
    and "\<not> bypassCache (js_get body ''method'')"
    and "cache (post_cacheKey plat request body) = None"
    and "tryProvider cfg env (req_url (post_cacheKey plat request body)) (Some request) =
           (Returned r, evs)"
  shows "handlePost cfg plat env request cache =
     (settle (formatResponse cfg (restamp plat r (edge_headers cfg))
                (Some [(''id'', js_get body ''id'')])),
      cache(post_cacheKey plat request body \<mapsto> restamp plat r (edge_headers cfg)),
      CacheMatch (post_cacheKey plat request body) # evs
        @ [CachePut (post_cacheKey plat request body) (restamp plat r (edge_headers cfg))])"
  using assms
  by (simp add: handlePost_def Let_def getOriginResponse_stored bind_outcome_def)

lemma handlePost_miss_not_returned:
  assumes "body_json (req_body request) = Inr body" and "body \<noteq> JNull" and "body \<noteq> JUndefined"
    and "\<not> bypassCache (js_get body ''method'')"
    and "cache (post_cacheKey plat request body) = None"
    and "\<forall>r. fst (tryProvider cfg env (req_url (post_cacheKey plat request body)) (Some request))
            \<noteq> Returned r"
  shows "handlePost cfg plat env request cache =
     (bind_outcome (fst (tryProvider cfg env (req_url (post_cacheKey plat request body)) (Some request)))
        (\<lambda>response. settle (formatResponse cfg response (Some [(''id'', js_get body ''id'')]))),
      cache,
      CacheMatch (post_cacheKey plat request body)
        # snd (tryProvider cfg env (req_url (post_cacheKey plat request body)) (Some request)))"
proof -
  have "\<forall>r. fst (tryProvider cfg env (req_url (post_cacheKey plat request body))
                  (event_request (FetchEvent request))) \<noteq> Returned r"
    using assms(6) by (simp add: event_request_def)
  then show ?thesis
    using assms(1-5)
    by (simp add: handlePost_def Let_def getOriginResponse_not_returned)
       (simp add: event_request_def)
qed

lemma handlePost_lookup_first:
  assumes "body_json (req_body request) = Inr body" and "body \<noteq> JNull" and "body \<noteq> JUndefined"
    and nb: "\<not> bypassCache (js_get body ''method'')"
  shows "hd (snd (snd (handlePost cfg plat env request cache))) =
           CacheMatch (post_cacheKey plat request body)"
proof (cases "cache (post_cacheKey plat request body)")
  case (Some c)
  then show ?thesis using assms by (simp add: handlePost_hit)
next
  case None
  let ?tp = "tryProvider cfg env (req_url (post_cacheKey plat request body)) (Some request)"
  show ?thesis
  proof (cases "\<exists>r. fst ?tp = Returned r")
    case True
    then obtain r0 where "?tp = (Returned r0, snd ?tp)"
      by (metis prod.collapse)
    then show ?thesis using assms None by (simp add: handlePost_miss_returned)
  next
    case False
    then show ?thesis using assms None by (simp add: handlePost_miss_not_returned)
  qed
qed

lemma handleGet_hit:
  "cache request = Some response \<Longrightarrow>
   handleGet cfg plat env request cache =
     (settle (formatResponse cfg response None), cache, [CacheMatch request])"
  by (simp add: handleGet_def)

lemma handleGet_miss:
  assumes "cache request = None"
  shows "handleGet cfg plat env request cache =
     (bind_outcome (fst (tryProvider cfg env (req_url request) None))
        (\<lambda>response. settle (formatResponse cfg response None)),
      cache, CacheMatch request # snd (tryProvider cfg env (req_url request) None))"
proof -
  have "\<forall>r. fst (tryProvider cfg env (req_url request) (event_request (PlainRequest request)))
          \<noteq> Returned r"
    by (simp add: event_request_def tryProvider_undefined_never_returns)
  then show ?thesis
    using assms
    by (simp add: handleGet_def Let_def getOriginResponse_not_returned)
       (simp add: event_request_def)
qed

lemma bind_not_returned: "\<forall>r. x \<noteq> Returned r \<Longrightarrow> bind_outcome x f \<noteq> Returned y"
  by (cases x) (simp_all add: bind_outcome_def)

lemma settle_returned: "(settle x = Returned r) = (x = Inr r)"
  by (cases x) (simp_all add: settle_def)

section \<open>Which requests use the cache\<close>

lemma tryProvider_no_cache_events:
  "e \<in> set (snd (tryProvider cfg env url request)) \<Longrightarrow> \<not> is_cache_event e"
proof (induction env arbitrary: url)
  case Nil
  then show ?case by simp
next
  case (Cons a env)
  show ?case
  proof (cases "pick cfg (rnd a)")
    case None
    then show ?thesis using Cons.prems by (simp only: tryProvider_no_pick) simp
  next
    case (Some p)
    show ?thesis
    proof (cases request)
      case None
      then show ?thesis
        using Cons.IH [of "aimed_at url p"] Cons.prems Some
        by (simp only: tryProvider_undefined_step) (auto simp: is_cache_event_def)
    next
      case req: (Some req)
      consider (failed) "failed_attempt cfg a" | (good) r1 where "good_attempt cfg a r1"
        using good_or_failed by blast
      then show ?thesis
      proof cases
        case good
        show ?thesis
          using Cons.prems unfolding req tryProvider_good_step [OF Some good]
          by (auto simp: is_cache_event_def)
      next
        case failed
        show ?thesis
          using Cons.prems Cons.IH [of "aimed_at url p"]
          unfolding req tryProvider_failed_step [OF Some failed]
          by (auto simp: is_cache_event_def)
      qed
    qed
  qed
qed

lemma cache_event_kinds:
  "is_cache_event (CachePut k s)" "is_cache_event (CacheMatch k)" "is_put (CachePut k s)"
  "\<not> is_put (CacheMatch k)" "is_put e \<Longrightarrow> is_cache_event e"
  by (auto simp: is_cache_event_def is_put_def split: event.splits)

lemma tryProvider_no_put:
  "CachePut k s \<notin> set (snd (tryProvider cfg env url request))"
  using tryProvider_no_cache_events cache_event_kinds(1) by blast

lemma restamp_facts:
  "res_body (restamp plat r hs) = res_body r"
  "res_headers (restamp plat r hs) = hs"
  "ok r \<Longrightarrow> ok (restamp plat r hs)"
  by (simp_all add: restamp_def ok_def)

lemma restamp_edge: "has_edge_header cfg (restamp plat r (edge_headers cfg))"
  by (simp add: has_edge_header_def restamp_facts edge_headers_get)

text \<open>
  Claim C3. When the body's \<open>method\<close> is \<open>eth_blockNumber\<close> or \<open>eth_estimateGas\<close>,
  \<open>handlePost\<close> leaves the cache as it was, and none of its events is a cache lookup or
  a cache put. For a JSON body (not \<open>null\<close>) with any other \<open>method\<close>, or none, the
  first event is the lookup of the derived key; and when the lookup misses and the
  failover loop returns a response, the last event is the put of the restamped response
  under the derived key, the cache holds it there, and its body is the origin's.
\<close>

theorem handlePost_bypass_policy:
  "(body_json (req_body request) = Inr body \<and>
      (js_get body ''method'' = JStr ''eth_blockNumber'' \<or>
       js_get body ''method'' = JStr ''eth_estimateGas'') \<longrightarrow>
      fst (snd (handlePost cfg plat env request cache)) = cache \<and>
      (\<forall>e \<in> set (snd (snd (handlePost cfg plat env request cache))). \<not> is_cache_event e))
   \<and> (body_json (req_body request1) = Inr body1 \<and> body1 \<noteq> JNull \<and> body1 \<noteq> JUndefined \<and>
        js_get body1 ''method'' \<noteq> JStr ''eth_blockNumber'' \<and>
        js_get body1 ''method'' \<noteq> JStr ''eth_estimateGas'' \<longrightarrow>
        hd (snd (snd (handlePost cfg plat env1 request1 cache1))) =
          CacheMatch (post_cacheKey plat request1 body1) \<and>
        (cache1 (post_cacheKey plat request1 body1) = None \<and>
         tryProvider cfg env1 (req_url (post_cacheKey plat request1 body1)) (Some request1) =
           (Returned r, evs) \<longrightarrow>
           last (snd (snd (handlePost cfg plat env1 request1 cache1))) =
             CachePut (post_cacheKey plat request1 body1) (restamp plat r (edge_headers cfg)) \<and>
           fst (snd (handlePost cfg plat env1 request1 cache1)) =
             cache1(post_cacheKey plat request1 body1 \<mapsto> restamp plat r (edge_headers cfg)) \<and>
           res_body (restamp plat r (edge_headers cfg)) = res_body r))"
proof (intro conjI impI)
  assume h: "body_json (req_body request) = Inr body \<and>
      (js_get body ''method'' = JStr ''eth_blockNumber'' \<or>
       js_get body ''method'' = JStr ''eth_estimateGas'')"
  then have b: "bypassCache (js_get body ''method'')"
    by (simp add: bypassCache_def)
  note run = handlePost_bypass [of request body cfg plat env cache, OF conjunct1 [OF h] b]
  show "fst (snd (handlePost cfg plat env request cache)) = cache"
    by (simp add: run)
  show "\<forall>e \<in> set (snd (snd (handlePost cfg plat env request cache))). \<not> is_cache_event e"
    using tryProvider_no_cache_events by (simp add: run)
next
  assume h: "body_json (req_body request1) = Inr body1 \<and> body1 \<noteq> JNull \<and> body1 \<noteq> JUndefined \<and>
        js_get body1 ''method'' \<noteq> JStr ''eth_blockNumber'' \<and>
        js_get body1 ''method'' \<noteq> JStr ''eth_estimateGas''"
  then have nb: "\<not> bypassCache (js_get body1 ''method'')"
    by (simp add: bypassCache_def)
  show "hd (snd (snd (handlePost cfg plat env1 request1 cache1))) =
          CacheMatch (post_cacheKey plat request1 body1)"
    using h nb by (intro handlePost_lookup_first) simp_all
next
  assume h: "body_json (req_body request1) = Inr body1 \<and> body1 \<noteq> JNull \<and> body1 \<noteq> JUndefined \<and>
        js_get body1 ''method'' \<noteq> JStr ''eth_blockNumber'' \<and>
        js_get body1 ''method'' \<noteq> JStr ''eth_estimateGas''"
    and m: "cache1 (post_cacheKey plat request1 body1) = None \<and>
         tryProvider cfg env1 (req_url (post_cacheKey plat request1 body1)) (Some request1) =
           (Returned r, evs)"
  then have nb: "\<not> bypassCache (js_get body1 ''method'')"
    by (simp add: bypassCache_def)
  have run: "handlePost cfg plat env1 request1 cache1 =
     (settle (formatResponse cfg (restamp plat r (edge_headers cfg))
                (Some [(''id'', js_get body1 ''id'')])),
      cache1(post_cacheKey plat request1 body1 \<mapsto> restamp plat r (edge_headers cfg)),
      CacheMatch (post_cacheKey plat request1 body1) # evs
        @ [CachePut (post_cacheKey plat request1 body1) (restamp plat r (edge_headers cfg))])"
    using h nb m by (intro handlePost_miss_returned) simp_all
  show "last (snd (snd (handlePost cfg plat env1 request1 cache1))) =
             CachePut (post_cacheKey plat request1 body1) (restamp plat r (edge_headers cfg))"
    by (simp add: run)
  show "fst (snd (handlePost cfg plat env1 request1 cache1)) =
             cache1(post_cacheKey plat request1 body1 \<mapsto> restamp plat r (edge_headers cfg))"
    by (simp add: run)
  show "res_body (restamp plat r (edge_headers cfg)) = res_body r"
    by (rule restamp_facts)
qed

section \<open>What a handler returns\<close>

lemma demo_run_pair:
  "tryProvider demo_config demo_env url (Some req) =
     (Returned (origin_response 200 rpc_result), snd (tryProvider demo_config demo_env url (Some req)))"
  using demo_run [of url req] by (metis prod.collapse)

lemma demo_bodies:
  "body_json (req_body (post_request b)) = Inr b"
  "rpc_body idv m \<noteq> JNull" "rpc_body idv m \<noteq> JUndefined"
  by (simp_all add: body_json_def post_request_def rpc_body_def)

theorem handlePost_bypass_policy_witness:
  "fst (snd (handlePost demo_config demo_platform demo_env
        (post_request (rpc_body (JNum 1) ''eth_blockNumber'')) empty_cache)) = empty_cache
   \<and> \<not> (\<exists>e \<in> set (snd (snd (handlePost demo_config demo_platform demo_env
        (post_request (rpc_body (JNum 1) ''eth_blockNumber'')) empty_cache))). is_cache_event e)
   \<and> hd (snd (snd (handlePost demo_config demo_platform demo_env
        (post_request (rpc_body (JStr ''abc'') ''eth_call'')) empty_cache))) =
       CacheMatch (post_cacheKey demo_platform (post_request (rpc_body (JStr ''abc'') ''eth_call''))
          (rpc_body (JStr ''abc'') ''eth_call''))
   \<and> last (snd (snd (handlePost demo_config demo_platform demo_env
        (post_request (rpc_body (JStr ''abc'') ''eth_call'')) empty_cache))) =
       CachePut (post_cacheKey demo_platform (post_request (rpc_body (JStr ''abc'') ''eth_call''))
          (rpc_body (JStr ''abc'') ''eth_call''))
         (restamp demo_platform (origin_response 200 rpc_result) (edge_headers demo_config))
   \<and> fst (snd (handlePost demo_config demo_platform demo_env
        (post_request (rpc_body (JStr ''abc'') ''eth_call'')) empty_cache))
         (post_cacheKey demo_platform (post_request (rpc_body (JStr ''abc'') ''eth_call''))
          (rpc_body (JStr ''abc'') ''eth_call'')) =
       Some (restamp demo_platform (origin_response 200 rpc_result) (edge_headers demo_config))"
proof -
  let ?b = "rpc_body (JNum 1) ''eth_blockNumber''"
  let ?c = "rpc_body (JStr ''abc'') ''eth_call''"
  let ?key = "post_cacheKey demo_platform (post_request ?c) ?c"
  let ?R = "origin_response 200 rpc_result"
  have h1: "body_json (req_body (post_request ?b)) = Inr ?b \<and>
      (js_get ?b ''method'' = JStr ''eth_blockNumber'' \<or>
       js_get ?b ''method'' = JStr ''eth_estimateGas'')"
    by (simp add: demo_bodies demo_params)
  have h2: "body_json (req_body (post_request ?c)) = Inr ?c \<and> ?c \<noteq> JNull \<and> ?c \<noteq> JUndefined \<and>
        js_get ?c ''method'' \<noteq> JStr ''eth_blockNumber'' \<and>
        js_get ?c ''method'' \<noteq> JStr ''eth_estimateGas''"
    by (simp add: demo_bodies demo_params)
  have h3: "empty_cache ?key = None \<and>
         tryProvider demo_config demo_env (req_url ?key) (Some (post_request ?c)) =
           (Returned ?R, snd (tryProvider demo_config demo_env (req_url ?key) (Some (post_request ?c))))"
    using demo_run_pair by (simp add: empty_cache_def)
  note inst = handlePost_bypass_policy
    [where request = "post_request ?b" and body = ?b and cfg = demo_config and plat = demo_platform
       and env = demo_env and cache = empty_cache and ?request1.0 = "post_request ?c"
       and ?body1.0 = ?c and ?env1.0 = demo_env and ?cache1.0 = empty_cache and r = ?R
       and evs = "snd (tryProvider demo_config demo_env (req_url ?key) (Some (post_request ?c)))"]
  have a: "fst (snd (handlePost demo_config demo_platform demo_env (post_request ?b) empty_cache)) =
      empty_cache"
    using inst h1 by blast
  have b: "\<not> (\<exists>e \<in> set (snd (snd (handlePost demo_config demo_platform demo_env
        (post_request ?b) empty_cache))). is_cache_event e)"
    using inst h1 by blast
  have c: "hd (snd (snd (handlePost demo_config demo_platform demo_env (post_request ?c) empty_cache))) =
       CacheMatch ?key"
    using inst h2 by blast
  have d: "last (snd (snd (handlePost demo_config demo_platform demo_env (post_request ?c) empty_cache))) =
       CachePut ?key (restamp demo_platform ?R (edge_headers demo_config))"
    using inst h2 h3 by blast
  have "fst (snd (handlePost demo_config demo_platform demo_env (post_request ?c) empty_cache)) =
       empty_cache(?key \<mapsto> restamp demo_platform ?R (edge_headers demo_config))"
    using inst h2 h3 by blast
  then have e: "fst (snd (handlePost demo_config demo_platform demo_env (post_request ?c) empty_cache))
      ?key = Some (restamp demo_platform ?R (edge_headers demo_config))"
    by simp
  show ?thesis
    using a b c d e by blast
qed

lemma formatResponse_contract:
  "formatResponse cfg response body = Inr r \<Longrightarrow> has_browser_headers cfg r"
  using formatResponse_headers [of cfg response body r]
  by (auto simp: has_browser_headers_def browser_headers_get)

lemma bind_settle_returned:
  "bind_outcome x (\<lambda>response. settle (f response)) = Returned r \<Longrightarrow>
   \<exists>src. x = Returned src \<and> f src = Inr r"
  by (cases x) (auto simp: bind_outcome_def settle_returned)

lemma handlePost_returned:
  assumes "handlePost cfg plat env request cache = (Returned r, cache1, evs)"
  shows "\<exists>body src. body_json (req_body request) = Inr body \<and>
           formatResponse cfg src (Some [(''id'', js_get body ''id'')]) = Inr r \<and>
           (cache (post_cacheKey plat request body) = Some src \<or>
            (\<exists>orig u evs0. tryProvider cfg env u (Some request) = (Returned orig, evs0) \<and>
               res_body src = res_body orig))"
proof (cases "body_json (req_body request)")
  case (Inl e)
  then show ?thesis using assms by (simp add: handlePost_invalid)
next
  case (Inr body)
  show ?thesis
  proof (cases "body = JNull \<or> body = JUndefined")
    case True
    then show ?thesis using assms Inr by (simp add: handlePost_null)
  next
    case nonnull: False
    show ?thesis
    proof (cases "bypassCache (js_get body ''method'')")
      case True
      let ?tp = "tryProvider cfg env (req_url request) (Some request)"
      have "bind_outcome (fst ?tp)
              (\<lambda>response. settle (formatResponse cfg response (Some [(''id'', js_get body ''id'')])))
            = Returned r"
        using assms by (simp add: handlePost_bypass [OF Inr True])
      then obtain src where src: "fst ?tp = Returned src"
        and fmt: "formatResponse cfg src (Some [(''id'', js_get body ''id'')]) = Inr r"
        using bind_settle_returned
          [of "fst ?tp" "\<lambda>response. formatResponse cfg response (Some [(''id'', js_get body ''id'')])" r]
        by blast
      have "?tp = (Returned src, snd ?tp)"
        using src by (metis prod.collapse)
      then show ?thesis using Inr fmt by blast
    next
      case False
      let ?key = "post_cacheKey plat request body"
      show ?thesis
      proof (cases "cache ?key")
        case (Some c)
        have "settle (formatResponse cfg c (Some [(''id'', js_get body ''id'')])) = Returned r"
          using assms nonnull
            handlePost_hit [where cache = cache and request = request and plat = plat and body = body
              and cfg = cfg and env = env, OF Inr _ _ False Some]
          by simp
        then show ?thesis using Inr Some by (auto simp: settle_returned)
      next
        case None
        let ?tp = "tryProvider cfg env (req_url ?key) (Some request)"
        show ?thesis
        proof (cases "\<exists>r0. fst ?tp = Returned r0")
          case True
          then obtain orig where tp: "?tp = (Returned orig, snd ?tp)"
            by (metis prod.collapse)
          have "settle (formatResponse cfg (restamp plat orig (edge_headers cfg))
                  (Some [(''id'', js_get body ''id'')])) = Returned r"
            using assms nonnull
              handlePost_miss_returned [where cache = cache and request = request and plat = plat
                and body = body and cfg = cfg and env = env, OF Inr _ _ False None tp]
            by simp
          then have "formatResponse cfg (restamp plat orig (edge_headers cfg))
                  (Some [(''id'', js_get body ''id'')]) = Inr r"
            by (simp add: settle_returned)
          then show ?thesis using Inr tp restamp_facts(1) by blast
        next
          case nr: False
          have "fst (handlePost cfg plat env request cache) \<noteq> Returned r"
            using nonnull nr
              handlePost_miss_not_returned [where cache = cache and request = request and plat = plat
                and body = body and cfg = cfg and env = env, OF Inr _ _ False None]
              bind_not_returned by simp
          then show ?thesis using assms by simp
        qed
      qed
    qed
  qed
qed

lemma handleGet_returned:
  assumes "handleGet cfg plat env request cache = (Returned r, cache1, evs)"
  shows "\<exists>src. cache request = Some src \<and> formatResponse cfg src None = Inr r"
proof (cases "cache request")
  case None
  have "\<forall>r0. fst (tryProvider cfg env (req_url request) None) \<noteq> Returned r0"
    using tryProvider_undefined_never_returns by blast
  then have "fst (handleGet cfg plat env request cache) \<noteq> Returned r"
    using bind_not_returned
    by (simp add: handleGet_miss [where cache = cache and request = request, OF None])
  then show ?thesis using assms by simp
next
  case (Some c)
  then show ?thesis using assms by (simp add: handleGet_hit settle_returned)
qed

text \<open>
  Claim C4. A response that \<open>formatResponse\<close> returns, and so every response that
  \<open>handlePost\<close> or \<open>handleGet\<close> returns, from the cache or from an origin, has
  \<open>Cache-Control: max-age=<BROWSER_CACHE_TTL>\<close>, \<open>Access-Control-Allow-Origin: *\<close>,
  \<open>Access-Control-Allow-Method: *\<close> and \<open>Access-Control-Allow-Headers: *\<close>, whatever
  headers the response formatted had.
\<close>

theorem formatted_response_headers:
  "(formatResponse cfg response body = Inr r \<longrightarrow> has_browser_headers cfg r)
   \<and> (handlePost cfg plat env request cache = (Returned r1, cache1, evs1) \<longrightarrow>
        has_browser_headers cfg r1)
   \<and> (handleGet cfg plat env request cache = (Returned r2, cache2, evs2) \<longrightarrow>
        has_browser_headers cfg r2)
   \<and> (has_browser_headers cfg r3 \<longrightarrow>
        headers_get (res_headers r3) ''Cache-Control'' =
          Some (''max-age='' @ toString 10 (BROWSER_CACHE_TTL cfg))
        \<and> headers_get (res_headers r3) ''Access-Control-Allow-Origin'' = Some ''*''
        \<and> headers_get (res_headers r3) ''Access-Control-Allow-Method'' = Some ''*''
        \<and> headers_get (res_headers r3) ''Access-Control-Allow-Headers'' = Some ''*'')"
proof (intro conjI impI)
  assume "formatResponse cfg response body = Inr r"
  then show "has_browser_headers cfg r" by (rule formatResponse_contract)
next
  assume "handlePost cfg plat env request cache = (Returned r1, cache1, evs1)"
  then show "has_browser_headers cfg r1"
    using handlePost_returned formatResponse_contract by blast
next
  assume "handleGet cfg plat env request cache = (Returned r2, cache2, evs2)"
  then show "has_browser_headers cfg r2"
    using handleGet_returned formatResponse_contract by blast
qed (simp_all add: has_browser_headers_def)

section \<open>The body of a formatted response\<close>

lemma formatResponse_json:
  "res_body src = JsonText v \<Longrightarrow> \<exists>r. formatResponse cfg src (Some extra) = Inr r"
  by (simp add: formatResponse_def body_json_def Let_def)

lemma demo_origin_body: "res_body (origin_response st v) = JsonText v"
  by (simp add: origin_response_def)

lemma demo_call_run:
  "\<exists>r. handlePost demo_config demo_platform demo_env
          (post_request (rpc_body idv ''eth_call'')) empty_cache =
     (Returned r,
      empty_cache(post_cacheKey demo_platform (post_request (rpc_body idv ''eth_call''))
                    (rpc_body idv ''eth_call'')
         \<mapsto> restamp demo_platform (origin_response 200 rpc_result) (edge_headers demo_config)),
      CacheMatch (post_cacheKey demo_platform (post_request (rpc_body idv ''eth_call''))
                    (rpc_body idv ''eth_call''))
        # snd (tryProvider demo_config demo_env
                 (req_url (post_cacheKey demo_platform (post_request (rpc_body idv ''eth_call''))
                    (rpc_body idv ''eth_call'')))
                 (Some (post_request (rpc_body idv ''eth_call''))))
        @ [CachePut (post_cacheKey demo_platform (post_request (rpc_body idv ''eth_call''))
                    (rpc_body idv ''eth_call''))
             (restamp demo_platform (origin_response 200 rpc_result) (edge_headers demo_config))])"
proof -
  let ?b = "rpc_body idv ''eth_call''"
  let ?src = "restamp demo_platform (origin_response 200 rpc_result) (edge_headers demo_config)"
  have nb: "\<not> bypassCache (js_get ?b ''method'')"
    by (simp add: bypassCache_def demo_params)
  have "res_body ?src = JsonText rpc_result"
    by (simp add: restamp_facts demo_origin_body)
  then obtain r where "formatResponse demo_config ?src (Some [(''id'', js_get ?b ''id'')]) = Inr r"
    using formatResponse_json by blast
  then show ?thesis
    using handlePost_miss_returned
      [where request = "post_request ?b" and body = ?b and plat = demo_platform
         and cache = empty_cache and cfg = demo_config and env = demo_env,
       OF demo_bodies(1) demo_bodies(2) demo_bodies(3) nb _ demo_run_pair]
    by (simp add: empty_cache_def settle_def)
qed

lemma demo_get_hit:
  "handleGet demo_config demo_platform [] get_request
     (empty_cache(get_request \<mapsto> origin_response 200 rpc_result)) =
   (Returned ((origin_response 200 rpc_result)
       \<lparr>res_headers := browser_headers demo_config (res_headers (origin_response 200 rpc_result))\<rparr>),
    empty_cache(get_request \<mapsto> origin_response 200 rpc_result), [CacheMatch get_request])"
  by (simp add: handleGet_hit formatResponse_def settle_def)

theorem formatted_response_headers_witness:
  "(\<exists>r. fst (handlePost demo_config demo_platform demo_env
          (post_request (rpc_body (JStr ''abc'') ''eth_call'')) empty_cache) = Returned r
     \<and> has_browser_headers demo_config r
     \<and> headers_get (res_headers r) ''Cache-Control'' =
         Some (''max-age='' @ toString 10 (BROWSER_CACHE_TTL demo_config))
     \<and> headers_get (res_headers r) ''Access-Control-Allow-Origin'' = Some ''*'')
   \<and> fst (handleGet demo_config demo_platform [] get_request
          (empty_cache(get_request \<mapsto> origin_response 200 rpc_result))) =
       Returned ((origin_response 200 rpc_result)
         \<lparr>res_headers := browser_headers demo_config (res_headers (origin_response 200 rpc_result))\<rparr>)
   \<and> has_browser_headers demo_config ((origin_response 200 rpc_result)
         \<lparr>res_headers := browser_headers demo_config (res_headers (origin_response 200 rpc_result))\<rparr>)
   \<and> formatResponse demo_config (origin_response 200 rpc_result) None =
       Inr ((origin_response 200 rpc_result)
         \<lparr>res_headers := browser_headers demo_config (res_headers (origin_response 200 rpc_result))\<rparr>)"
proof -
  let ?g = "(origin_response 200 rpc_result)
         \<lparr>res_headers := browser_headers demo_config (res_headers (origin_response 200 rpc_result))\<rparr>"
  obtain r c e where run: "handlePost demo_config demo_platform demo_env
          (post_request (rpc_body (JStr ''abc'') ''eth_call'')) empty_cache = (Returned r, c, e)"
    using demo_call_run [of "JStr ''abc''"] by blast
  have fmt: "formatResponse demo_config (origin_response 200 rpc_result) None = Inr ?g"
    by (simp add: formatResponse_def)
  note inst = formatted_response_headers
    [where cfg = demo_config and plat = demo_platform and env = demo_env
       and request = "post_request (rpc_body (JStr ''abc'') ''eth_call'')" and cache = empty_cache
       and ?r1.0 = r and ?cache1.0 = c and ?evs1.0 = e and ?r3.0 = r
       and response = "origin_response 200 rpc_result" and body = None and r = ?g]
  note inst_get = formatted_response_headers
    [where cfg = demo_config and plat = demo_platform and env = "[]" and request = get_request
       and cache = "empty_cache(get_request \<mapsto> origin_response 200 rpc_result)" and ?r2.0 = ?g
       and ?cache2.0 = "empty_cache(get_request \<mapsto> origin_response 200 rpc_result)"
       and ?evs2.0 = "[CacheMatch get_request]"]
  have "has_browser_headers demo_config r"
    using inst run by blast
  moreover from this have "headers_get (res_headers r) ''Cache-Control'' =
         Some (''max-age='' @ toString 10 (BROWSER_CACHE_TTL demo_config))
     \<and> headers_get (res_headers r) ''Access-Control-Allow-Origin'' = Some ''*''"
    using inst by blast
  moreover have "has_browser_headers demo_config ?g"
    using inst_get demo_get_hit by blast
  moreover have "has_browser_headers demo_config ?g"
    using inst fmt by blast
  moreover have "fst (handleGet demo_config demo_platform [] get_request
          (empty_cache(get_request \<mapsto> origin_response 200 rpc_result))) = Returned ?g"
    by (simp add: demo_get_hit)
  ultimately show ?thesis
    using run fmt by auto
qed

lemma handlePost_body:
  assumes "handlePost cfg plat env request cache = (Returned r, cache1, evs)"
  shows "\<exists>body src orig. body_json (req_body request) = Inr body \<and>
           res_body src = JsonText orig \<and>
           res_body r = JsonText (json_of (object_spread (own_props orig) [(''id'', js_get body ''id'')])) \<and>
           (cache (post_cacheKey plat request body) = Some src \<or>
            (\<exists>got u evs0. tryProvider cfg env u (Some request) = (Returned got, evs0) \<and>
               res_body src = res_body got))"
proof -
  obtain body src where b: "body_json (req_body request) = Inr body"
    and f: "formatResponse cfg src (Some [(''id'', js_get body ''id'')]) = Inr r"
    and s: "cache (post_cacheKey plat request body) = Some src \<or>
            (\<exists>got u evs0. tryProvider cfg env u (Some request) = (Returned got, evs0) \<and>
               res_body src = res_body got)"
    using handlePost_returned [OF assms] by blast
  obtain orig where "res_body src = JsonText orig"
    and "res_body r = JsonText (json_of (object_spread (own_props orig) [(''id'', js_get body ''id'')]))"
    using formatResponse_extra [OF f] by blast
  then show ?thesis using b s by blast
qed

text \<open>
  Claim C5. With extra fields \<open>{ id }\<close>, the body \<open>formatResponse\<close> returns is the JSON of
  \<open>{ ...originalBody, id }\<close>, where \<open>originalBody\<close> is the JSON body of the response it was
  given. Field by field: \<open>id\<close> is the extra one, every other field is the original's
  (and the original's properties are taken as they are when their keys are distinct). A
  response that \<open>handlePost\<close> returns has such a body, merged from the body of the cached
  entry or of the response the failover loop returned, with the \<open>id\<close> of the request's
  body; when that \<open>id\<close> is \<open>"abc"\<close>, the \<open>id\<close> of the response's body is \<open>"abc"\<close>.
\<close>

theorem response_body_merge:
  "(formatResponse cfg response (Some [(''id'', idv)]) = Inr r \<longrightarrow>
      (\<exists>orig. res_body response = JsonText orig \<and>
         res_body r = JsonText (json_of (object_spread (own_props orig) [(''id'', idv)]))))
   \<and> (\<forall>k. js_get (json_of (object_spread props [(''id'', idv)])) k =
          json_of (if k = ''id'' then idv else js_get (JObj (object_assign [] props)) k))
   \<and> (distinct (map fst props) \<longrightarrow> object_assign [] props = props)
   \<and> (handlePost cfg plat env request cache = (Returned r1, cache1, evs) \<longrightarrow>
        (\<exists>body src orig. body_json (req_body request) = Inr body \<and>
           res_body src = JsonText orig \<and>
           res_body r1 =
             JsonText (json_of (object_spread (own_props orig) [(''id'', js_get body ''id'')])) \<and>
           (cache (post_cacheKey plat request body) = Some src \<or>
            (\<exists>got u evs0. tryProvider cfg env u (Some request) = (Returned got, evs0) \<and>
               res_body src = res_body got)) \<and>
           (js_get body ''id'' = JStr ''abc'' \<longrightarrow>
              js_get (json_of (object_spread (own_props orig) [(''id'', js_get body ''id'')])) ''id''
                = JStr ''abc'')))"
proof (intro conjI impI allI)
  assume "formatResponse cfg response (Some [(''id'', idv)]) = Inr r"
  then show "\<exists>orig. res_body response = JsonText orig \<and>
         res_body r = JsonText (json_of (object_spread (own_props orig) [(''id'', idv)]))"
    using formatResponse_extra by blast
next
  fix k
  show "js_get (json_of (object_spread props [(''id'', idv)])) k =
          json_of (if k = ''id'' then idv else js_get (JObj (object_assign [] props)) k)"
    by (rule merged_fields)
next
  assume "distinct (map fst props)"
  then show "object_assign [] props = props"
    using object_assign_fresh [of "[]" props] by simp
next
  assume run: "handlePost cfg plat env request cache = (Returned r1, cache1, evs)"
  obtain body src orig where "body_json (req_body request) = Inr body"
    and "res_body src = JsonText orig"
    and "res_body r1 =
             JsonText (json_of (object_spread (own_props orig) [(''id'', js_get body ''id'')]))"
    and "cache (post_cacheKey plat request body) = Some src \<or>
            (\<exists>got u evs0. tryProvider cfg env u (Some request) = (Returned got, evs0) \<and>
               res_body src = res_body got)"
    using handlePost_body [OF run] by blast
  moreover have "js_get body ''id'' = JStr ''abc'' \<longrightarrow>
              js_get (json_of (object_spread (own_props orig) [(''id'', js_get body ''id'')])) ''id''
                = JStr ''abc''"
    by (simp add: merged_fields)
  ultimately show "\<exists>body src orig. body_json (req_body request) = Inr body \<and>
           res_body src = JsonText orig \<and>
           res_body r1 =
             JsonText (json_of (object_spread (own_props orig) [(''id'', js_get body ''id'')])) \<and>
           (cache (post_cacheKey plat request body) = Some src \<or>
            (\<exists>got u evs0. tryProvider cfg env u (Some request) = (Returned got, evs0) \<and>
               res_body src = res_body got)) \<and>
           (js_get body ''id'' = JStr ''abc'' \<longrightarrow>
              js_get (json_of (object_spread (own_props orig) [(''id'', js_get body ''id'')])) ''id''
                = JStr ''abc'')"
    by blast
qed

lemma demo_merged:
  "json_of (object_spread (own_props rpc_result) [(''id'', JStr ''abc'')]) =
     JObj [(''jsonrpc'', JStr ''2.0''), (''id'', JStr ''abc''), (''result'', JStr ''0x10'')]"
  "json_of (object_spread (own_props rpc_result) [(''id'', JUndefined)]) =
     JObj [(''jsonrpc'', JStr ''2.0''), (''result'', JStr ''0x10'')]"
  "json_of (object_spread (own_props rpc_result) [(''id'', JNum 2)]) =
     JObj [(''jsonrpc'', JStr ''2.0''), (''id'', JNum 2), (''result'', JStr ''0x10'')]"
  by (simp_all add: object_spread_def object_assign_def obj_set_def own_props_def rpc_result_def)

lemma demo_format:
  "formatResponse demo_config
     (restamp demo_platform (origin_response 200 rpc_result) (edge_headers demo_config))
     (Some [(''id'', idv)]) =
   Inr \<lparr>status = 200, statusText = [],
        res_headers =
          [(''content-type'', ''text/plain;charset=UTF-8''), (''cache-control'', ''max-age=0''),
           (''access-control-allow-method'', ''*''), (''access-control-allow-origin'', ''*''),
           (''access-control-allow-headers'', ''*'')],
        res_body = JsonText (json_of (object_spread (own_props rpc_result) [(''id'', idv)]))\<rparr>"
proof -
  have t: "toString 10 0 = ''0''"
    by (simp add: toString_small digit_char_def)
  have u: "toString 10 60 = ''60''"
    by (simp add: toString_two_digits digit_char_def)
  show ?thesis
    by (simp add: formatResponse_def body_json_def restamp_def origin_response_def
        text_response_def edge_headers_def headers_init_def headers_get_def headers_set_def
        browser_headers_def lower_char_def demo_config_def demo_platform_def t u)
qed

lemma demo_post_run:
  assumes "b \<noteq> JNull" and "b \<noteq> JUndefined" and "\<not> bypassCache (js_get b ''method'')"
  shows "handlePost demo_config demo_platform demo_env (post_request b) empty_cache =
     (settle (formatResponse demo_config
                (restamp demo_platform (origin_response 200 rpc_result) (edge_headers demo_config))
                (Some [(''id'', js_get b ''id'')])),
      empty_cache(post_cacheKey demo_platform (post_request b) b
         \<mapsto> restamp demo_platform (origin_response 200 rpc_result) (edge_headers demo_config)),
      CacheMatch (post_cacheKey demo_platform (post_request b) b)
        # snd (tryProvider demo_config demo_env
                 (req_url (post_cacheKey demo_platform (post_request b) b)) (Some (post_request b)))
        @ [CachePut (post_cacheKey demo_platform (post_request b) b)
             (restamp demo_platform (origin_response 200 rpc_result) (edge_headers demo_config))])"
  using handlePost_miss_returned
      [where request = "post_request b" and body = b and plat = demo_platform
         and cache = empty_cache and cfg = demo_config and env = demo_env,
       OF demo_bodies(1) assms _ demo_run_pair]
  by (simp add: empty_cache_def)

theorem response_body_merge_witness:
  "(\<exists>r. fst (handlePost demo_config demo_platform demo_env
          (post_request (rpc_body (JStr ''abc'') ''eth_call'')) empty_cache) = Returned r
     \<and> res_body r =
         JsonText (JObj [(''jsonrpc'', JStr ''2.0''), (''id'', JStr ''abc''), (''result'', JStr ''0x10'')]))
   \<and> js_get (JObj [(''jsonrpc'', JStr ''2.0''), (''id'', JStr ''abc''), (''result'', JStr ''0x10'')])
          ''id'' = JStr ''abc''
   \<and> js_get rpc_result ''id'' = JNum 7
   \<and> (\<exists>r. formatResponse demo_config (origin_response 200 rpc_result) (Some [(''id'', JStr ''abc'')])
            = Inr r
        \<and> res_body r =
         JsonText (JObj [(''jsonrpc'', JStr ''2.0''), (''id'', JStr ''abc''), (''result'', JStr ''0x10'')]))
   \<and> object_assign [] (own_props rpc_result) = own_props rpc_result"
proof -
  let ?b = "rpc_body (JStr ''abc'') ''eth_call''"
  let ?req = "post_request ?b"
  obtain r c e where run: "handlePost demo_config demo_platform demo_env ?req empty_cache =
      (Returned r, c, e)"
    using demo_call_run [of "JStr ''abc''"] by blast
  obtain r0 where fmt: "formatResponse demo_config (origin_response 200 rpc_result)
      (Some [(''id'', JStr ''abc'')]) = Inr r0"
    using formatResponse_json [OF demo_origin_body] by blast
  note inst = response_body_merge
    [where cfg = demo_config and plat = demo_platform and env = demo_env and request = ?req
       and cache = empty_cache and ?r1.0 = r and ?cache1.0 = c and evs = e
       and props = "own_props rpc_result" and idv = "JStr ''abc''"
       and response = "origin_response 200 rpc_result" and r = r0]
  obtain body src orig where b: "body_json (req_body ?req) = Inr body"
    and s: "res_body src = JsonText orig"
    and m: "res_body r =
             JsonText (json_of (object_spread (own_props orig) [(''id'', js_get body ''id'')]))"
    and f: "empty_cache (post_cacheKey demo_platform ?req body) = Some src \<or>
            (\<exists>got u evs0. tryProvider demo_config demo_env u (Some ?req) = (Returned got, evs0) \<and>
               res_body src = res_body got)"
    using inst run by blast
  have body: "body = ?b"
    using b by (simp add: demo_bodies)
  obtain got u evs0 where "tryProvider demo_config demo_env u (Some ?req) = (Returned got, evs0)"
    and g: "res_body src = res_body got"
    using f by (auto simp: empty_cache_def)
  then have "got = origin_response 200 rpc_result"
    using demo_run [of u ?req] by simp
  then have "orig = rpc_result"
    using s g by (simp add: demo_origin_body)
  then have one: "res_body r =
         JsonText (JObj [(''jsonrpc'', JStr ''2.0''), (''id'', JStr ''abc''), (''result'', JStr ''0x10'')])"
    using m body by (simp add: demo_params demo_merged)
  have two: "js_get (JObj [(''jsonrpc'', JStr ''2.0''), (''id'', JStr ''abc''), (''result'', JStr ''0x10'')])
          ''id'' = JStr ''abc''"
    using inst [THEN conjunct2, THEN conjunct1, rule_format, of "''id''"]
    by (simp add: demo_merged)
  have three: "js_get rpc_result ''id'' = JNum 7"
    by (simp add: rpc_result_def js_get_def)
  obtain orig0 where "res_body (origin_response 200 rpc_result) = JsonText orig0"
    and "res_body r0 = JsonText (json_of (object_spread (own_props orig0) [(''id'', JStr ''abc'')]))"
    using inst fmt by blast
  then have four: "res_body r0 =
         JsonText (JObj [(''jsonrpc'', JStr ''2.0''), (''id'', JStr ''abc''), (''result'', JStr ''0x10'')])"
    by (simp add: demo_origin_body demo_merged)
  have "distinct (map fst (own_props rpc_result))"
    by (simp add: own_props_def rpc_result_def)
  then have five: "object_assign [] (own_props rpc_result) = own_props rpc_result"
    using inst by blast
  show ?thesis
    using run one two three fmt four five by auto
qed

lemma absent_field: "k \<notin> fst ` set members \<Longrightarrow> js_get (JObj members) k = JUndefined"
proof -
  assume "k \<notin> fst ` set members"
  then have "map_of members k = None"
    by (simp add: map_of_eq_None_iff)
  then show ?thesis
    by (simp add: js_get_def)
qed

lemma merged_is_object: "\<exists>kvs. json_of (object_spread a b) = JObj kvs"
  by (simp add: object_spread_def)

text \<open>
  Claim C10. Formatting with \<open>{ id: undefined }\<close> gives a body that is an object with no
  \<open>id\<close> property, whatever the original body held; so does \<open>handlePost\<close> for a request
  whose body reads \<open>id\<close> as \<open>undefined\<close>, as a body with no \<open>id\<close> member does. The spread
  does set \<open>id\<close> to \<open>undefined\<close> in the merged object; it is \<open>JSON.stringify\<close> that drops
  it.
\<close>

theorem response_without_id:
  "(formatResponse cfg response (Some [(''id'', JUndefined)]) = Inr r \<longrightarrow>
      (\<exists>kvs. res_body r = JsonText (JObj kvs) \<and> ''id'' \<notin> fst ` set kvs))
   \<and> (handlePost cfg plat env request cache = (Returned r1, cache1, evs) \<and>
       body_json (req_body request) = Inr body \<and> js_get body ''id'' = JUndefined \<longrightarrow>
      (\<exists>kvs. res_body r1 = JsonText (JObj kvs) \<and> ''id'' \<notin> fst ` set kvs))
   \<and> (''id'' \<notin> fst ` set members \<longrightarrow> js_get (JObj members) ''id'' = JUndefined)
   \<and> object_spread props [(''id'', JUndefined)] =
       JObj (obj_set ''id'' JUndefined (object_assign [] props))
   \<and> map_of (obj_set ''id'' JUndefined (object_assign [] props)) ''id'' = Some JUndefined"
proof (intro conjI impI)
  assume "formatResponse cfg response (Some [(''id'', JUndefined)]) = Inr r"
  then obtain orig where
    "res_body r = JsonText (json_of (object_spread (own_props orig) [(''id'', JUndefined)]))"
    using formatResponse_extra by blast
  then show "\<exists>kvs. res_body r = JsonText (JObj kvs) \<and> ''id'' \<notin> fst ` set kvs"
    using merged_is_object merged_without_undefined by metis
next
  assume h: "handlePost cfg plat env request cache = (Returned r1, cache1, evs) \<and>
       body_json (req_body request) = Inr body \<and> js_get body ''id'' = JUndefined"
  then obtain body1 orig where "body_json (req_body request) = Inr body1"
    and "res_body r1 =
           JsonText (json_of (object_spread (own_props orig) [(''id'', js_get body1 ''id'')]))"
    using handlePost_body by blast
  then have "res_body r1 = JsonText (json_of (object_spread (own_props orig) [(''id'', JUndefined)]))"
    using h by simp
  then show "\<exists>kvs. res_body r1 = JsonText (JObj kvs) \<and> ''id'' \<notin> fst ` set kvs"
    using merged_is_object merged_without_undefined by metis
next
  assume "''id'' \<notin> fst ` set members"
  then show "js_get (JObj members) ''id'' = JUndefined"
    by (rule absent_field)
next
  show "object_spread props [(''id'', JUndefined)] =
       JObj (obj_set ''id'' JUndefined (object_assign [] props))"
    by (rule object_spread_id)
next
  show "map_of (obj_set ''id'' JUndefined (object_assign [] props)) ''id'' = Some JUndefined"
    by (simp add: map_of_obj_set)
qed

theorem response_without_id_witness:
  "fst (handlePost demo_config demo_platform demo_env (post_request body_without_id) empty_cache) =
     Returned \<lparr>status = 200, statusText = [],
        res_headers =
          [(''content-type'', ''text/plain;charset=UTF-8''), (''cache-control'', ''max-age=0''),
           (''access-control-allow-method'', ''*''), (''access-control-allow-origin'', ''*''),
           (''access-control-allow-headers'', ''*'')],
        res_body = JsonText (JObj [(''jsonrpc'', JStr ''2.0''), (''result'', JStr ''0x10'')])\<rparr>
   \<and> js_get rpc_result ''id'' = JNum 7
   \<and> (\<exists>kvs. JsonText (JObj [(''jsonrpc'', JStr ''2.0''), (''result'', JStr ''0x10'')]) =
              JsonText (JObj kvs) \<and> ''id'' \<notin> fst ` set kvs)
   \<and> js_get body_without_id ''id'' = JUndefined
   \<and> (\<exists>r kvs. formatResponse demo_config (origin_response 200 rpc_result)
                   (Some [(''id'', JUndefined)]) = Inr r
          \<and> res_body r = JsonText (JObj kvs) \<and> ''id'' \<notin> fst ` set kvs)"
proof -
  let ?req = "post_request body_without_id"
  let ?r = "\<lparr>status = 200, statusText = [],
        res_headers =
          [(''content-type'', ''text/plain;charset=UTF-8''), (''cache-control'', ''max-age=0''),
           (''access-control-allow-method'', ''*''), (''access-control-allow-origin'', ''*''),
           (''access-control-allow-headers'', ''*'')],
        res_body = JsonText (JObj [(''jsonrpc'', JStr ''2.0''), (''result'', JStr ''0x10'')])\<rparr>"
  let ?members = "[(''jsonrpc'', JStr ''2.0''), (''method'', JStr ''eth_call''), (''params'', JArr [])]"
  have nb: "\<not> bypassCache (js_get body_without_id ''method'')"
    and nn: "body_without_id \<noteq> JNull" "body_without_id \<noteq> JUndefined"
    by (simp_all add: body_without_id_def js_get_def bypassCache_def)
  obtain r0 where fmt: "formatResponse demo_config (origin_response 200 rpc_result)
      (Some [(''id'', JUndefined)]) = Inr r0"
    using formatResponse_json [OF demo_origin_body] by blast
  note inst = response_without_id
      [where cfg = demo_config and plat = demo_platform and env = demo_env and request = ?req
         and cache = empty_cache and ?r1.0 = ?r and body = body_without_id
         and ?cache1.0 = "fst (snd (handlePost demo_config demo_platform demo_env ?req empty_cache))"
         and evs = "snd (snd (handlePost demo_config demo_platform demo_env ?req empty_cache))"
         and members = ?members and response = "origin_response 200 rpc_result" and r = r0]
  have "''id'' \<notin> fst ` set ?members"
    by simp
  then have "js_get (JObj ?members) ''id'' = JUndefined"
    using inst by blast
  then have noid: "js_get body_without_id ''id'' = JUndefined"
    by (simp add: body_without_id_def)
  have first: "fst (handlePost demo_config demo_platform demo_env ?req empty_cache) = Returned ?r"
    by (simp add: demo_post_run [OF nn nb] noid demo_format demo_merged settle_def)
  then have run: "handlePost demo_config demo_platform demo_env ?req empty_cache =
      (Returned ?r, fst (snd (handlePost demo_config demo_platform demo_env ?req empty_cache)),
       snd (snd (handlePost demo_config demo_platform demo_env ?req empty_cache)))"
    by (metis prod.collapse)
  have a: "\<exists>kvs. res_body ?r = JsonText (JObj kvs) \<and> ''id'' \<notin> fst ` set kvs"
    using inst run noid demo_bodies(1) [of body_without_id] by blast
  have b: "js_get rpc_result ''id'' = JNum 7"
    by (simp add: rpc_result_def js_get_def)
  have c: "\<exists>kvs. res_body r0 = JsonText (JObj kvs) \<and> ''id'' \<notin> fst ` set kvs"
    using inst fmt by blast
  show ?thesis
    using first a b noid fmt c by auto
qed

section \<open>GET misses, and what the key leaves out\<close>

text \<open>
  Claim C7. \<open>handleGet\<close> looks the request itself up first, and on a hit formats the cached
  response. On a miss it calls \<open>getOriginResponse(url, request, request)\<close>: the request
  stands where the event is expected, \<open>event.request\<close> is \<open>undefined\<close>, and every attempt
  of the failover loop throws at \<open>request.clone()\<close> before any fetch. So, whatever the
  attempts, a GET that misses returns no response, fetches nothing and puts nothing in
  the cache, which stays as it was.
\<close>

theorem handleGet_miss_never_answers:
  "(cache request = None \<longrightarrow>
      (\<forall>r. fst (handleGet cfg plat env request cache) \<noteq> Returned r) \<and>
      fst (snd (handleGet cfg plat env request cache)) = cache \<and>
      hd (snd (snd (handleGet cfg plat env request cache))) = CacheMatch request \<and>
      (\<forall>e \<in> set (snd (snd (handleGet cfg plat env request cache))).
         \<not> is_fetch e \<and> \<not> is_put e))
   \<and> (cache request = Some c \<longrightarrow>
        handleGet cfg plat env request cache =
          (settle (formatResponse cfg c None), cache, [CacheMatch request]))"
proof (intro conjI impI allI ballI)
  fix r
  assume miss: "cache request = None"
  have "\<forall>r0. fst (tryProvider cfg env (req_url request) None) \<noteq> Returned r0"
    using tryProvider_undefined_never_returns by blast
  then show "fst (handleGet cfg plat env request cache) \<noteq> Returned r"
    using bind_not_returned
    by (simp add: handleGet_miss [where cache = cache and request = request, OF miss])
next
  assume miss: "cache request = None"
  show "fst (snd (handleGet cfg plat env request cache)) = cache"
    by (simp add: handleGet_miss [where cache = cache and request = request, OF miss])
  show "hd (snd (snd (handleGet cfg plat env request cache))) = CacheMatch request"
    by (simp add: handleGet_miss [where cache = cache and request = request, OF miss])
next
  fix e
  assume miss: "cache request = None"
    and e: "e \<in> set (snd (snd (handleGet cfg plat env request cache)))"
  then have "e = CacheMatch request \<or> e \<in> set (snd (tryProvider cfg env (req_url request) None))"
    by (simp add: handleGet_miss [where cache = cache and request = request, OF miss])
  then show "\<not> is_fetch e"
    using tryProvider_undefined_no_fetch by (auto simp: is_fetch_def)
  from \<open>e = CacheMatch request \<or> e \<in> set (snd (tryProvider cfg env (req_url request) None))\<close>
  show "\<not> is_put e"
    using tryProvider_no_cache_events cache_event_kinds(4,5) by blast
next
  assume "cache request = Some c"
  then show "handleGet cfg plat env request cache =
          (settle (formatResponse cfg c None), cache, [CacheMatch request])"
    by (rule handleGet_hit)
qed

theorem handleGet_miss_never_answers_witness:
  "fst (handleGet demo_config demo_platform demo_env get_request empty_cache)
      \<noteq> Returned (origin_response 200 rpc_result)
   \<and> fst (snd (handleGet demo_config demo_platform demo_env get_request empty_cache)) = empty_cache
   \<and> hd (snd (snd (handleGet demo_config demo_platform demo_env get_request empty_cache))) =
       CacheMatch get_request
   \<and> \<not> (\<exists>e \<in> set (snd (snd (handleGet demo_config demo_platform demo_env get_request empty_cache))).
          is_fetch e \<or> is_put e)
   \<and> (\<exists>a \<in> set demo_env. good_attempt demo_config a (origin_response 200 rpc_result))
   \<and> handleGet demo_config demo_platform demo_env get_request
        (empty_cache(get_request \<mapsto> origin_response 200 rpc_result)) =
      (settle (formatResponse demo_config (origin_response 200 rpc_result) None),
       empty_cache(get_request \<mapsto> origin_response 200 rpc_result), [CacheMatch get_request])"
proof -
  have miss: "empty_cache get_request = None"
    by (simp add: empty_cache_def)
  have hit: "(empty_cache(get_request \<mapsto> origin_response 200 rpc_result)) get_request =
      Some (origin_response 200 rpc_result)"
    by simp
  have good: "\<exists>a \<in> set demo_env. good_attempt demo_config a (origin_response 200 rpc_result)"
    using demo_last_good by (auto simp: demo_env_def)
  show ?thesis
    using handleGet_miss_never_answers
      [where cache = empty_cache and request = get_request and cfg = demo_config
         and plat = demo_platform and env = demo_env]
      handleGet_miss_never_answers
      [where cache = "empty_cache(get_request \<mapsto> origin_response 200 rpc_result)"
         and request = get_request and cfg = demo_config
         and plat = demo_platform and env = demo_env and c = "origin_response 200 rpc_result"]
      miss hit good
    by blast
qed

lemma post_cacheKey_fields:
  "post_cacheKey plat request
     (JObj [(''jsonrpc'', j), (''id'', i), (''method'', m), (''params'', ps)]) =
   post_cacheKey plat request
     (JObj [(''jsonrpc'', j1), (''id'', i1), (''method'', m1), (''params'', ps)])"
  by (simp add: post_cacheKey_def js_get_def)

lemma demo_keys_equal:
  "post_cacheKey demo_platform (post_request (rpc_body i m)) (rpc_body i m) =
   post_cacheKey demo_platform (post_request (rpc_body i1 m1)) (rpc_body i1 m1)"
  by (rule post_cacheKey_params_only) (simp_all add: post_request_def demo_params)

text \<open>
  Claim C8. The hash is taken of \<open>JSON.stringify(body.params)\<close>; the object \<open>cacheable\<close>
  built from \<open>method\<close>, \<open>jsonrpc\<close> and the params is not used. Bodies with the same
  \<open>params\<close> have the same key whatever their \<open>jsonrpc\<close>, \<open>id\<close> and \<open>method\<close>. In the
  example deployment an \<open>eth_getBalance\<close> request fills the cache, and an \<open>eth_getCode\<close>
  request with the same params is then answered, whatever the providers would say, with
  the stored \<open>eth_getBalance\<close> result under its own \<open>id\<close>.
\<close>

theorem cache_key_ignores_method:
  "post_cacheKey plat request
     (JObj [(''jsonrpc'', j), (''id'', i), (''method'', m), (''params'', ps)]) =
   post_cacheKey plat request
     (JObj [(''jsonrpc'', j1), (''id'', i1), (''method'', m1), (''params'', ps)])
   \<and> js_get (rpc_body (JNum 1) ''eth_getBalance'') ''method'' \<noteq>
       js_get (rpc_body (JNum 2) ''eth_getCode'') ''method''
   \<and> post_cacheKey demo_platform (post_request (rpc_body (JNum 1) ''eth_getBalance''))
        (rpc_body (JNum 1) ''eth_getBalance'') =
      post_cacheKey demo_platform (post_request (rpc_body (JNum 2) ''eth_getCode''))
        (rpc_body (JNum 2) ''eth_getCode'')
   \<and> handlePost demo_config demo_platform env
        (post_request (rpc_body (JNum 2) ''eth_getCode''))
        (fst (snd (handlePost demo_config demo_platform demo_env
                     (post_request (rpc_body (JNum 1) ''eth_getBalance'')) empty_cache))) =
      (Returned \<lparr>status = 200, statusText = [],
          res_headers =
            [(''content-type'', ''text/plain;charset=UTF-8''), (''cache-control'', ''max-age=0''),
             (''access-control-allow-method'', ''*''), (''access-control-allow-origin'', ''*''),
             (''access-control-allow-headers'', ''*'')],
          res_body =
            JsonText (JObj [(''jsonrpc'', JStr ''2.0''), (''id'', JNum 2),
                            (''result'', JStr ''0x10'')])\<rparr>,
       fst (snd (handlePost demo_config demo_platform demo_env
                    (post_request (rpc_body (JNum 1) ''eth_getBalance'')) empty_cache)),
       [CacheMatch (post_cacheKey demo_platform
            (post_request (rpc_body (JNum 2) ''eth_getCode''))
            (rpc_body (JNum 2) ''eth_getCode''))])"
proof -
  let ?b1 = "rpc_body (JNum 1) ''eth_getBalance''"
  let ?b2 = "rpc_body (JNum 2) ''eth_getCode''"
  let ?src = "restamp demo_platform (origin_response 200 rpc_result) (edge_headers demo_config)"
  have nb: "\<not> bypassCache (js_get ?b1 ''method'')" "\<not> bypassCache (js_get ?b2 ''method'')"
    by (simp_all add: bypassCache_def demo_params)
  have first: "fst (snd (handlePost demo_config demo_platform demo_env (post_request ?b1) empty_cache)) =
      empty_cache(post_cacheKey demo_platform (post_request ?b1) ?b1 \<mapsto> ?src)"
    by (simp add: demo_post_run [OF demo_bodies(2) demo_bodies(3) nb(1)])
  have hit: "(empty_cache(post_cacheKey demo_platform (post_request ?b1) ?b1 \<mapsto> ?src))
      (post_cacheKey demo_platform (post_request ?b2) ?b2) = Some ?src"
    using demo_keys_equal [of "JNum 1" "''eth_getBalance''" "JNum 2" "''eth_getCode''"] by simp
  have second: "handlePost demo_config demo_platform env (post_request ?b2)
      (empty_cache(post_cacheKey demo_platform (post_request ?b1) ?b1 \<mapsto> ?src)) =
     (settle (formatResponse demo_config ?src (Some [(''id'', js_get ?b2 ''id'')])),
      empty_cache(post_cacheKey demo_platform (post_request ?b1) ?b1 \<mapsto> ?src),
      [CacheMatch (post_cacheKey demo_platform (post_request ?b2) ?b2)])"
    using handlePost_hit
      [where request = "post_request ?b2" and body = ?b2 and plat = demo_platform
         and cache = "empty_cache(post_cacheKey demo_platform (post_request ?b1) ?b1 \<mapsto> ?src)"
         and cfg = demo_config and env = env,
       OF demo_bodies(1) demo_bodies(2) demo_bodies(3) nb(2) hit]
    by simp
  have differ: "js_get ?b1 ''method'' \<noteq> js_get ?b2 ''method''"
    by (simp add: demo_params)
  show ?thesis
    using post_cacheKey_fields demo_keys_equal differ
    by (simp only: first second demo_params demo_format demo_merged settle_def sum.case) simp
qed

section \<open>What is written to the edge cache\<close>

lemma tryProvider0_events:
  "e \<in> set (snd (tryProvider0 cfg env url request used)) \<Longrightarrow> \<not> is_cache_event e"
  by (induction env arbitrary: url used)
     (auto simp: is_cache_event_def Let_def case_prod_beta
        split: option.splits net.splits if_splits)

lemma tryProvider0_returned_fst:
  "fst (tryProvider0 cfg env url request used) = Returned r \<Longrightarrow>
   \<exists>a \<in> set env. \<exists>t. net a = Responds t r"
  by (induction env arbitrary: url used)
     (auto simp: Let_def case_prod_beta split: option.splits net.splits if_splits)

lemma tryProvider0_returned:
  "tryProvider0 cfg env url request used = (Returned r, evs) \<Longrightarrow>
   \<exists>a \<in> set env. \<exists>t. net a = Responds t r"
  using tryProvider0_returned_fst [of cfg env url request used r] by simp

text \<open>
  Once the first fetch of \<open>src/index.js\<close> has read the body of a request, no later
  attempt with that request returns a response.
\<close>

lemma tryProvider0_used_never_returns:
  "has_body request \<Longrightarrow> fst (tryProvider0 cfg env url request True) \<noteq> Returned r"
  by (induction env arbitrary: url)
     (auto simp: Let_def case_prod_beta split: option.splits)

lemma getOriginResponse_puts:
  assumes "CachePut k s \<in> set (snd (snd (getOriginResponse cfg plat env url event key cache)))"
  shows "key = Some k \<and>
         (\<exists>got. ok got \<and> (\<exists>a \<in> set env. good_attempt cfg a got) \<and>
            s = restamp plat got (edge_headers cfg))"
proof (cases "tryProvider cfg env url (event_request event)")
  case (Pair res evs)
  have np: "CachePut k s \<notin> set evs"
    using tryProvider_no_put [of k s cfg env url "event_request event"] Pair by simp
  show ?thesis
  proof (cases res)
    case (Returned got)
    have good: "ok got \<and> (\<exists>a \<in> set env. good_attempt cfg a got)"
      using tryProvider_only_good [of cfg env url "event_request event" got evs] Pair Returned
      by simp
    show ?thesis
    proof (cases key)
      case None
      then show ?thesis
        using assms Pair Returned np by (simp add: getOriginResponse_def)
    next
      case (Some key1)
      then have "k = key1 \<and> s = restamp plat got (edge_headers cfg)"
        using assms Pair Returned np
        by (auto simp: getOriginResponse_def Let_def split: jsarg.splits)
      then show ?thesis using Some good by blast
    qed
  next
    case (Thrown e)
    then show ?thesis using assms Pair np by (simp add: getOriginResponse_def)
  next
    case Unsettled
    then show ?thesis using assms Pair np by (simp add: getOriginResponse_def)
  qed
qed

lemma getOriginResponse0_puts:
  assumes "CachePut k s \<in> set (snd (snd (getOriginResponse0 cfg plat env url event key cache)))"
  shows "k = key \<and>
         (\<exists>got. (\<exists>a \<in> set env. \<exists>t. net a = Responds t got) \<and>
            s = restamp plat got (edge_headers cfg))"
proof (cases "tryProvider0 cfg env url (event_request event) False")
  case (Pair res evs)
  have np: "CachePut k s \<notin> set evs"
    using tryProvider0_events [of "CachePut k s" cfg env url "event_request event" False] Pair
      cache_event_kinds(1) by auto
  show ?thesis
  proof (cases res)
    case (Returned got)
    have "\<exists>a \<in> set env. \<exists>t. net a = Responds t got"
      using tryProvider0_returned Pair Returned by blast
    moreover have "k = key \<and> s = restamp plat got (edge_headers cfg)"
      using assms Pair Returned np
      by (auto simp: getOriginResponse0_def Let_def split: jsarg.splits)
    ultimately show ?thesis by blast
  next
    case (Thrown e)
    then show ?thesis using assms Pair np by (simp add: getOriginResponse0_def)
  next
    case Unsettled
    then show ?thesis using assms Pair np by (simp add: getOriginResponse0_def)
  qed
qed

lemma handlePost_puts:
  assumes "CachePut k s \<in> set (snd (snd (handlePost cfg plat env request cache)))"
  shows "\<exists>body got. body_json (req_body request) = Inr body \<and>
           \<not> bypassCache (js_get body ''method'') \<and>
           k = post_cacheKey plat request body \<and> cache k = None \<and>
           ok got \<and> (\<exists>a \<in> set env. good_attempt cfg a got) \<and>
           s = restamp plat got (edge_headers cfg)"
proof (cases "body_json (req_body request)")
  case (Inl e)
  then show ?thesis using assms by (simp add: handlePost_invalid)
next
  case (Inr body)
  show ?thesis
  proof (cases "body = JNull \<or> body = JUndefined")
    case True
    then show ?thesis using assms Inr by (simp add: handlePost_null)
  next
    case nonnull: False
    show ?thesis
    proof (cases "bypassCache (js_get body ''method'')")
      case True
      then show ?thesis
        using assms tryProvider_no_put by (simp add: handlePost_bypass [OF Inr True])
    next
      case False
      let ?key = "post_cacheKey plat request body"
      show ?thesis
      proof (cases "cache ?key")
        case (Some c)
        show ?thesis
          using assms nonnull
            handlePost_hit [where cache = cache and request = request and plat = plat and body = body
              and cfg = cfg and env = env, OF Inr _ _ False Some]
          by simp
      next
        case None
        let ?tp = "tryProvider cfg env (req_url ?key) (Some request)"
        show ?thesis
        proof (cases "\<exists>r0. fst ?tp = Returned r0")
          case True
          then obtain got where tp: "?tp = (Returned got, snd ?tp)"
            by (metis prod.collapse)
          have "k = ?key \<and> s = restamp plat got (edge_headers cfg)"
            using assms nonnull tryProvider_no_put [of k s cfg env "req_url ?key" "Some request"]
              handlePost_miss_returned [where cache = cache and request = request and plat = plat
                and body = body and cfg = cfg and env = env, OF Inr _ _ False None tp]
            by auto
          moreover have "ok got \<and> (\<exists>a \<in> set env. good_attempt cfg a got)"
            using tryProvider_only_good [OF tp] by blast
          ultimately show ?thesis using Inr False None by blast
        next
          case nr: False
          show ?thesis
            using assms nonnull nr tryProvider_no_put [of k s cfg env "req_url ?key" "Some request"]
              handlePost_miss_not_returned [where cache = cache and request = request and plat = plat
                and body = body and cfg = cfg and env = env, OF Inr _ _ False None]
            by simp
        qed
      qed
    qed
  qed
qed

text \<open>
  On the worker with the timeout, what claim C6 says of the edge cache holds. A put that
  \<open>getOriginResponse\<close> issues is under the key it was given and stores the restamped copy
  of an ok response of a good attempt; a put among the events of \<open>handlePost\<close> is such a
  put, under the derived key, for a body whose \<open>method\<close> is neither \<open>eth_blockNumber\<close>
  nor \<open>eth_estimateGas\<close>. The restamped copy of an ok response is ok, has the origin's
  body and has \<open>Cache-Control: public, max-age=<EDGE_CACHE_TTL>\<close>. In \<open>src/index.js\<close> a
  put of \<open>getOriginResponse\<close> is under the key given and has the same header, but stores
  the restamped copy of whatever response a fetch resolved with.
\<close>

theorem edge_cache_entries:
  "(CachePut k s \<in> set (snd (snd (getOriginResponse cfg plat env url event key cache))) \<longrightarrow>
      key = Some k \<and>
      (\<exists>got. ok got \<and> (\<exists>a \<in> set env. good_attempt cfg a got) \<and>
         s = restamp plat got (edge_headers cfg)))
   \<and> (CachePut k s \<in> set (snd (snd (handlePost cfg plat env request cache))) \<longrightarrow>
        (\<exists>body got. body_json (req_body request) = Inr body \<and>
           js_get body ''method'' \<noteq> JStr ''eth_blockNumber'' \<and>
           js_get body ''method'' \<noteq> JStr ''eth_estimateGas'' \<and>
           k = post_cacheKey plat request body \<and>
           ok got \<and> (\<exists>a \<in> set env. good_attempt cfg a got) \<and>
           s = restamp plat got (edge_headers cfg)))
   \<and> (ok got1 \<longrightarrow> ok (restamp plat got1 (edge_headers cfg)))
   \<and> res_body (restamp plat got1 (edge_headers cfg)) = res_body got1
   \<and> has_edge_header cfg (restamp plat got1 (edge_headers cfg))
   \<and> headers_get (edge_headers cfg) ''Cache-Control'' =
       Some (''public, max-age='' @ toString 10 (EDGE_CACHE_TTL cfg))
   \<and> (CachePut k s \<in> set (snd (snd (getOriginResponse0 cfg plat env url event key0 cache))) \<longrightarrow>
        k = key0 \<and>
        (\<exists>got. (\<exists>a \<in> set env. \<exists>t. net a = Responds t got) \<and>
           s = restamp plat got (edge_headers cfg)))"
proof (intro conjI impI)
  assume "CachePut k s \<in> set (snd (snd (getOriginResponse cfg plat env url event key cache)))"
  then show "key = Some k"
    and "\<exists>got. ok got \<and> (\<exists>a \<in> set env. good_attempt cfg a got) \<and>
         s = restamp plat got (edge_headers cfg)"
    using getOriginResponse_puts by blast+
next
  assume "CachePut k s \<in> set (snd (snd (handlePost cfg plat env request cache)))"
  then show "\<exists>body got. body_json (req_body request) = Inr body \<and>
           js_get body ''method'' \<noteq> JStr ''eth_blockNumber'' \<and>
           js_get body ''method'' \<noteq> JStr ''eth_estimateGas'' \<and>
           k = post_cacheKey plat request body \<and>
           ok got \<and> (\<exists>a \<in> set env. good_attempt cfg a got) \<and>
           s = restamp plat got (edge_headers cfg)"
    using handlePost_puts [of k s cfg plat env request cache]
    by (auto simp: bypassCache_def)
next
  assume "ok got1"
  then show "ok (restamp plat got1 (edge_headers cfg))"
    by (rule restamp_facts)
next
  show "res_body (restamp plat got1 (edge_headers cfg)) = res_body got1"
    by (rule restamp_facts)
next
  show "has_edge_header cfg (restamp plat got1 (edge_headers cfg))"
    by (rule restamp_edge)
next
  show "headers_get (edge_headers cfg) ''Cache-Control'' =
       Some (''public, max-age='' @ toString 10 (EDGE_CACHE_TTL cfg))"
    by (rule edge_headers_get)
next
  assume "CachePut k s \<in> set (snd (snd (getOriginResponse0 cfg plat env url event key0 cache)))"
  then show "k = key0"
    and "\<exists>got. (\<exists>a \<in> set env. \<exists>t. net a = Responds t got) \<and>
           s = restamp plat got (edge_headers cfg)"
    using getOriginResponse0_puts by blast+
qed


lemma demo0_run:
  "tryProvider0 demo_config env_500 url request False =
     (Returned (origin_response 500 rpc_result), [Fetch (aimed_at url provider_b) request])"
  by (simp add: env_500_def demo_picks aimed_at_def)

lemma demo0_post:
  "snd (snd (handlePost0 demo_config demo_platform env_500 (post_request b) empty_cache)) =
     (if b = JNull \<or> b = JUndefined then []
      else [CacheMatch (post_cacheKey demo_platform (post_request b) b),
            Fetch (aimed_at (req_url (post_cacheKey demo_platform (post_request b) b)) provider_b)
              (Some (post_request b)),
            CachePut (post_cacheKey demo_platform (post_request b) b)
              (restamp demo_platform (origin_response 500 rpc_result) (edge_headers demo_config))])"
  by (simp add: handlePost0_def demo_bodies getOriginResponse0_def demo0_run event_request_def
      empty_cache_def Let_def)

text \<open>
  Claim C6. Every entry written to the edge cache should be an ok origin response for a
  cacheable operation. The worker of \<open>src/index.js\<close> breaks this: its \<open>tryProvider\<close> does
  not test \<open>response.ok\<close> and its \<open>handlePost\<close> has no bypass, so for an
  \<open>eth_blockNumber\<close> request that a provider answers with status 500, the answer is put
  in the cache under the derived key.
\<close>

theorem src_index_stores_failures:
  "CachePut (post_cacheKey demo_platform (post_request (rpc_body (JNum 1) ''eth_blockNumber''))
        (rpc_body (JNum 1) ''eth_blockNumber''))
     (restamp demo_platform (origin_response 500 rpc_result) (edge_headers demo_config))
     \<in> set (snd (snd (handlePost0 demo_config demo_platform env_500
                (post_request (rpc_body (JNum 1) ''eth_blockNumber'')) empty_cache)))
   \<and> \<not> ok (origin_response 500 rpc_result)
   \<and> js_get (rpc_body (JNum 1) ''eth_blockNumber'') ''method'' = JStr ''eth_blockNumber''"
  by (simp add: demo0_post demo_bodies demo_ok demo_params)

theorem edge_cache_entries_witness:
  "(\<exists>body got.
      body_json (req_body (post_request (rpc_body (JNum 1) ''eth_call''))) = Inr body \<and>
      js_get body ''method'' \<noteq> JStr ''eth_blockNumber'' \<and>
      js_get body ''method'' \<noteq> JStr ''eth_estimateGas'' \<and>
      post_cacheKey demo_platform (post_request (rpc_body (JNum 1) ''eth_call''))
        (rpc_body (JNum 1) ''eth_call'') =
      post_cacheKey demo_platform (post_request (rpc_body (JNum 1) ''eth_call'')) body \<and>
      ok got \<and> (\<exists>a \<in> set demo_env. good_attempt demo_config a got) \<and>
      restamp demo_platform (origin_response 200 rpc_result) (edge_headers demo_config) =
      restamp demo_platform got (edge_headers demo_config))
   \<and> ok (restamp demo_platform (origin_response 200 rpc_result) (edge_headers demo_config))
   \<and> (\<exists>got. (\<exists>a \<in> set env_500. \<exists>t. net a = Responds t got) \<and>
        restamp demo_platform (origin_response 500 rpc_result) (edge_headers demo_config) =
        restamp demo_platform got (edge_headers demo_config))
   \<and> CachePut (post_cacheKey demo_platform (post_request (rpc_body (JNum 1) ''eth_call''))
        (rpc_body (JNum 1) ''eth_call''))
       (restamp demo_platform (origin_response 200 rpc_result) (edge_headers demo_config))
       \<in> set (snd (snd (getOriginResponse demo_config demo_platform demo_env proxy_url
            (FetchEvent (post_request (rpc_body (JNum 1) ''eth_call'')))
            (Some (post_cacheKey demo_platform (post_request (rpc_body (JNum 1) ''eth_call''))
               (rpc_body (JNum 1) ''eth_call'')))
            empty_cache)))"
proof -
  let ?b = "rpc_body (JNum 1) ''eth_call''"
  let ?req = "post_request ?b"
  let ?key = "post_cacheKey demo_platform ?req ?b"
  let ?s = "restamp demo_platform (origin_response 200 rpc_result) (edge_headers demo_config)"
  let ?bad = "restamp demo_platform (origin_response 500 rpc_result) (edge_headers demo_config)"
  have nb: "\<not> bypassCache (js_get ?b ''method'')"
    by (simp add: bypassCache_def demo_params)
  have put: "CachePut ?key ?s \<in>
      set (snd (snd (handlePost demo_config demo_platform demo_env ?req empty_cache)))"
    by (simp add: demo_post_run [OF demo_bodies(2) demo_bodies(3) nb])
  have put1: "CachePut ?key ?s \<in>
      set (snd (snd (getOriginResponse demo_config demo_platform demo_env proxy_url
            (FetchEvent ?req) (Some ?key) empty_cache)))"
    by (simp add: getOriginResponse_stored [OF demo_run_pair])
  have put0: "CachePut ?key ?bad \<in>
      set (snd (snd (getOriginResponse0 demo_config demo_platform env_500 proxy_url
            (FetchEvent ?req) ?key empty_cache)))"
    by (simp add: getOriginResponse0_def demo0_run event_request_def Let_def)
  have okr: "ok (origin_response 200 rpc_result)"
    by (rule demo_ok)
  note inst = edge_cache_entries
    [where k = ?key and s = ?s and cfg = demo_config and plat = demo_platform and env = demo_env
       and request = ?req and cache = empty_cache and ?got1.0 = "origin_response 200 rpc_result"
       and url = proxy_url and event = "FetchEvent ?req" and key = "Some ?key" and ?key0.0 = ?key]
  note inst0 = edge_cache_entries
    [where k = ?key and s = ?bad and cfg = demo_config and plat = demo_platform and env = env_500
       and request = ?req and cache = empty_cache and ?got1.0 = "origin_response 200 rpc_result"
       and url = proxy_url and event = "FetchEvent ?req" and key = "Some ?key" and ?key0.0 = ?key]
  have a: "\<exists>body got.
      body_json (req_body ?req) = Inr body \<and>
      js_get body ''method'' \<noteq> JStr ''eth_blockNumber'' \<and>
      js_get body ''method'' \<noteq> JStr ''eth_estimateGas'' \<and>
      ?key = post_cacheKey demo_platform ?req body \<and>
      ok got \<and> (\<exists>a \<in> set demo_env. good_attempt demo_config a got) \<and>
      ?s = restamp demo_platform got (edge_headers demo_config)"
    using inst put by blast
  have b: "ok ?s"
    using inst okr by blast
  have c: "\<exists>got. (\<exists>a \<in> set env_500. \<exists>t. net a = Responds t got) \<and>
        ?bad = restamp demo_platform got (edge_headers demo_config)"
    using inst0 put0 by blast
  show ?thesis
    using a b c put1 by blast
qed

section \<open>Malformed POST bodies\<close>











end
